theory Spec2Isabelle
  imports Complex_Main
begin

section \<open>JavaScript values and computations\<close>

text \<open>
  The values the adapter handles. Host objects (the window, the document, DOM elements and
  any other object) are references compared by identity, as \<open>===\<close> does. Finite numbers
  are reals; \<open>JNaN\<close> is kept apart because it is falsy.
\<close>

datatype jsval =
    JUndefined
  | JNull
  | JBool bool
  | JNum real
  | JNaN
  | JStr string
  | JWindow
  | JDocument
  | JElem nat
  | JObj nat
  | JError string
  | JTypeError string

text \<open>ToBoolean: what an \<open>if\<close>, a \<open>!\<close>, a \<open>||\<close> or a \<open>? :\<close> sees.\<close>

fun truthy :: "jsval \<Rightarrow> bool" where
  "truthy JUndefined = False"
| "truthy JNull = False"
| "truthy (JBool b) = b"
| "truthy (JNum x) = (x \<noteq> 0)"
| "truthy JNaN = False"
| "truthy (JStr s) = (s \<noteq> [])"
| "truthy _ = True"

text \<open>
  A call either returns a value or throws one; the store it leaves behind is kept in both
  cases, since effects made before a \<open>throw\<close> stay.
\<close>

datatype 'a res = Ret 'a | Throw jsval

type_synonym ('s, 'a) js = "'s \<Rightarrow> 'a res \<times> 's"

definition ret :: "'a \<Rightarrow> ('s, 'a) js" where
  "ret v = (\<lambda>s. (Ret v, s))"

definition throw :: "jsval \<Rightarrow> ('s, 'a) js" where
  "throw e = (\<lambda>s. (Throw e, s))"

definition bind_js :: "('s, 'a) js \<Rightarrow> ('a \<Rightarrow> ('s, 'b) js) \<Rightarrow> ('s, 'b) js" where
  "bind_js m f = (\<lambda>s. case m s of (Ret v, s') \<Rightarrow> f v s' | (Throw e, s') \<Rightarrow> (Throw e, s'))"

definition try_catch :: "('s, 'a) js \<Rightarrow> (jsval \<Rightarrow> ('s, 'a) js) \<Rightarrow> ('s, 'a) js" where
  "try_catch m h = (\<lambda>s. case m s of (Ret v, s') \<Rightarrow> (Ret v, s') | (Throw e, s') \<Rightarrow> h e s')"

text \<open>
  An \<open>async\<close> function never throws to its caller: it returns a promise, fulfilled with
  the body's value or rejected with what the body threw. \<open>await\<close> is modelled as running the
  awaited call to its settlement before going on (nothing else runs in between).
\<close>

datatype 'a promise = Resolved 'a | Rejected jsval

definition async :: "('s, 'a) js \<Rightarrow> ('s, 'a promise) js" where
  "async m = (\<lambda>s. case m s of (Ret v, s') \<Rightarrow> (Ret (Resolved v), s')
                             | (Throw e, s') \<Rightarrow> (Ret (Rejected e), s'))"

definition await :: "('s, 'a promise) js \<Rightarrow> ('s, 'a) js" where
  "await m = (\<lambda>s. case m s of (Ret (Resolved v), s') \<Rightarrow> (Ret v, s')
                             | (Ret (Rejected e), s') \<Rightarrow> (Throw e, s')
                             | (Throw e, s') \<Rightarrow> (Throw e, s'))"

text \<open>\<open>Array.prototype.forEach\<close>: the callback runs on each element in order; a throw ends the loop.\<close>

fun forEach :: "'a list \<Rightarrow> ('a \<Rightarrow> ('s, jsval) js) \<Rightarrow> ('s, jsval) js" where
  "forEach [] f = ret JUndefined"
| "forEach (x # xs) f = bind_js (f x) (\<lambda>_. forEach xs f)"

text \<open>The \<open>i\<close>-th actual argument of a call; a missing argument reads as \<open>undefined\<close>.\<close>

definition arg :: "nat \<Rightarrow> jsval list \<Rightarrow> jsval" where
  "arg i args = (if i < length args then args ! i else JUndefined)"

text \<open>Reading a property of a plain object: an absent key reads as \<open>undefined\<close>.\<close>

definition obj_get :: "(string \<rightharpoonup> jsval) \<Rightarrow> string \<Rightarrow> jsval" where
  "obj_get obj k = (case obj k of None \<Rightarrow> JUndefined | Some v \<Rightarrow> v)"

section \<open>The store\<close>

text \<open>
  \<open>options\<close> is the object held in \<open>this.__options\<close>: closures installed into the wrapped
  module keep a reference to it and read it when they run, so it lives in the store.
  \<open>world\<close> is everything else the program can reach: the DOM, the wrapped module's memory,
  the console.
\<close>

record 'w heap =
  options :: "string \<rightharpoonup> jsval"
  world :: 'w

section \<open>Manager: options\<close>

text \<open>The functions a caller may put into \<open>userOptions.initialModule\<close>; \<open>None\<close> when the
  member is not a function.\<close>

record 'w initialModule =
  onAbort :: "(jsval \<Rightarrow> ('w heap, jsval) js) option"
  print :: "(jsval \<Rightarrow> ('w heap, jsval) js) option"
  printErr :: "(jsval \<Rightarrow> ('w heap, jsval) js) option"

definition emptyInitialModule :: "'w initialModule" where
  "emptyInitialModule = \<lparr>onAbort = None, print = None, printErr = None\<rparr>"

text \<open>
  The caller's \<open>userOptions\<close> object: \<open>props\<close> are its own enumerable properties (what
  the spread copies), \<open>initialModuleObj\<close> the callable members of the object that
  \<open>props ''initialModule''\<close> refers to.
\<close>

record 'w userOptions =
  props :: "string \<rightharpoonup> jsval"
  initialModuleObj :: "'w initialModule"

definition defaultOptions :: "string \<rightharpoonup> jsval" where
  "defaultOptions =
     [''redirectCanvasRequests'' \<mapsto> JBool True,
      ''captureFocusOnComponent'' \<mapsto> JBool True,
      ''captureTabKey'' \<mapsto> JBool False,
      ''resizeCanvasOnElementSizing'' \<mapsto> JBool True,
      ''resizeCanvasOnFullscreenChange'' \<mapsto> JBool True,
      ''adjustViewportByDevicePixelRatio'' \<mapsto> JBool True,
      ''disposeCanvasOnAbort'' \<mapsto> JBool True]"

definition getDefaultOptionsForVersion :: "(string \<rightharpoonup> jsval) \<Rightarrow> (string \<rightharpoonup> jsval)" where
  "getDefaultOptionsForVersion userProps =
     (if \<not> truthy (obj_get userProps ''emsdkVersion'') then defaultOptions
      else (case obj_get userProps ''emsdkVersion'' of _ \<Rightarrow> defaultOptions))"

text \<open>\<open>{...defaults, ...userOptions}\<close>: a fresh object, the later spread winning on every key it has.\<close>

definition setOptions :: "(string \<rightharpoonup> jsval) \<Rightarrow> 'w heap \<Rightarrow> 'w heap" where
  "setOptions userProps s = s\<lparr>options := getDefaultOptionsForVersion userProps ++ userProps\<rparr>"

text \<open>
  The fields of \<open>this\<close> other than \<open>__options\<close>. Each is assigned once (in the constructors,
  \<open>_moduleInstance\<close> in \<open>_initializeModule\<close>) and then only read.
\<close>

record 'w manager =
  componentElement :: jsval
  canvasElement :: jsval
  consoleElement :: jsval
  initialModule :: "'w initialModule"
  wasmPath :: jsval

definition Manager_constructor ::
  "jsval \<Rightarrow> jsval \<Rightarrow> jsval \<Rightarrow> 'w userOptions \<Rightarrow> ('w heap, 'w manager) js" where
  "Manager_constructor component canvas console userOpts =
     (\<lambda>s. (Ret \<lparr>componentElement = component,
                 canvasElement = canvas,
                 consoleElement = console,
                 initialModule =
                   (if truthy (obj_get (props userOpts) ''initialModule'')
                    then initialModuleObj userOpts else emptyInitialModule),
                 wasmPath = obj_get (props userOpts) ''wasmPath''\<rparr>,
           setOptions (props userOpts) s))"

text \<open>The defaults as the specification documents them, key by key.\<close>

definition documented_default :: "string \<Rightarrow> jsval option" where
  "documented_default k =
     (if k = ''redirectCanvasRequests'' then Some (JBool True)
      else if k = ''captureFocusOnComponent'' then Some (JBool True)
      else if k = ''captureTabKey'' then Some (JBool False)
      else if k = ''resizeCanvasOnElementSizing'' then Some (JBool True)
      else if k = ''resizeCanvasOnFullscreenChange'' then Some (JBool True)
      else if k = ''adjustViewportByDevicePixelRatio'' then Some (JBool True)
      else if k = ''disposeCanvasOnAbort'' then Some (JBool True)
      else None)"

section \<open>Manager: the contract methods of the base class\<close>

text \<open>
  Each of these bodies is a single \<open>throw new Error(...)\<close>. The ones declared \<open>async\<close>
  hand the error back as a rejected promise.
\<close>

definition Manager_initialize :: "('s, jsval promise) js" where
  "Manager_initialize = async (throw (JError ''Manager::initialize() not implemented by the subclass.''))"

definition Manager_callMain :: "('s, jsval) js" where
  "Manager_callMain = throw (JError ''Manager::callMain() not implemented by the subclass.'')"

definition Manager_abort :: "('s, jsval) js" where
  "Manager_abort = throw (JError ''Manager::abort() not implemented by the subclass.'')"

definition Manager_pauseMainLoop :: "('s, jsval) js" where
  "Manager_pauseMainLoop = throw (JError ''Manager::pauseMainLoop() not implemented by the subclass.'')"

definition Manager_resumeMainLoop :: "('s, jsval) js" where
  "Manager_resumeMainLoop = throw (JError ''Manager::resumeMainLoop() not implemented by the subclass.'')"

definition Manager_requestFullscreen :: "('s, jsval promise) js" where
  "Manager_requestFullscreen =
     async (throw (JError ''Manager::requestFullscreen() not implemented by the subclass.''))"

definition Manager_exitFullscreen :: "('s, jsval promise) js" where
  "Manager_exitFullscreen =
     async (throw (JError ''Manager::exitFullscreen() not implemented by the subclass.''))"

definition Manager_onResizeCanvas :: "('s, jsval) js" where
  "Manager_onResizeCanvas = throw (JError ''Manager::onResizeCanvas() not implemented by the subclass.'')"

definition Manager_initializeModule :: "('s, jsval promise) js" where
  "Manager_initializeModule =
     async (throw (JError ''Manager::_initializeModule() not implemented by the subclass.''))"

definition Manager_patchModule :: "('s, jsval) js" where
  "Manager_patchModule = throw (JError ''Manager::_patchModule() not implemented by subclass.'')"

text \<open>What a caller observes of one invocation.\<close>

datatype outcome = Returned jsval | Thrown jsval | Fulfilled jsval | RejectedWith jsval

definition sync_outcome :: "('s, jsval) js \<Rightarrow> 's \<Rightarrow> outcome" where
  "sync_outcome m s = (case fst (m s) of Ret v \<Rightarrow> Returned v | Throw e \<Rightarrow> Thrown e)"

definition async_outcome :: "('s, jsval promise) js \<Rightarrow> 's \<Rightarrow> outcome" where
  "async_outcome m s =
     (case fst (m s) of
        Ret (Resolved v) \<Rightarrow> Fulfilled v
      | Ret (Rejected e) \<Rightarrow> RejectedWith e
      | Throw e \<Rightarrow> Thrown e)"

datatype contract_method =
    M_initialize | M_callMain | M_abort | M_pauseMainLoop | M_resumeMainLoop
  | M_requestFullscreen | M_exitFullscreen | M_onResizeCanvas
  | M_initializeModule | M_patchModule

definition contract_methods :: "contract_method list" where
  "contract_methods =
     [M_initialize, M_callMain, M_abort, M_pauseMainLoop, M_resumeMainLoop,
      M_requestFullscreen, M_exitFullscreen, M_onResizeCanvas,
      M_initializeModule, M_patchModule]"

text \<open>Invoking a contract method on the base class; none of the bodies reads its arguments.\<close>

fun Manager_invoke :: "contract_method \<Rightarrow> jsval list \<Rightarrow> 's \<Rightarrow> outcome" where
  "Manager_invoke M_initialize args = async_outcome Manager_initialize"
| "Manager_invoke M_callMain args = sync_outcome Manager_callMain"
| "Manager_invoke M_abort args = sync_outcome Manager_abort"
| "Manager_invoke M_pauseMainLoop args = sync_outcome Manager_pauseMainLoop"
| "Manager_invoke M_resumeMainLoop args = sync_outcome Manager_resumeMainLoop"
| "Manager_invoke M_requestFullscreen args = async_outcome Manager_requestFullscreen"
| "Manager_invoke M_exitFullscreen args = async_outcome Manager_exitFullscreen"
| "Manager_invoke M_onResizeCanvas args = sync_outcome Manager_onResizeCanvas"
| "Manager_invoke M_initializeModule args = async_outcome Manager_initializeModule"
| "Manager_invoke M_patchModule args = sync_outcome Manager_patchModule"

fun is_async :: "contract_method \<Rightarrow> bool" where
  "is_async M_initialize = True"
| "is_async M_requestFullscreen = True"
| "is_async M_exitFullscreen = True"
| "is_async M_initializeModule = True"
| "is_async _ = False"

text \<open>An unimplemented-method error: an \<open>Error\<close> whose message says so.\<close>

definition endsWith :: "string \<Rightarrow> string \<Rightarrow> bool" where
  "endsWith s p = (length p \<le> length s \<and> drop (length s - length p) s = p)"

definition startsWith :: "string \<Rightarrow> string \<Rightarrow> bool" where
  "startsWith s p = (take (length p) s = p)"

fun unimplemented_error :: "jsval \<Rightarrow> bool" where
  "unimplemented_error (JError msg) =
     (startsWith msg ''Manager::'' \<and>
      (endsWith msg ''not implemented by the subclass.'' \<or> endsWith msg ''not implemented by subclass.''))"
| "unimplemented_error _ = False"

fun raises_unimplemented :: "outcome \<Rightarrow> bool" where
  "raises_unimplemented (Thrown e) = unimplemented_error e"
| "raises_unimplemented (RejectedWith e) = unimplemented_error e"
| "raises_unimplemented _ = False"

section \<open>The wrapped module and the browser\<close>

text \<open>
  \<open>===\<close> on the values above: identity for host objects, value equality for primitives,
  and \<open>NaN\<close> equal to nothing.
\<close>

definition strict_eq :: "jsval \<Rightarrow> jsval \<Rightarrow> bool" where
  "strict_eq a b = (a = b \<and> a \<noteq> JNaN)"

text \<open>The properties of a DOM event that the adapter reads.\<close>

record event =
  keyCode :: jsval
  relatedTarget :: jsval
  evt_target :: jsval
  srcElement :: jsval

text \<open>
  The \<open>eventHandler\<close> object Emscripten passes to \<open>JSEvents.registerOrRemoveHandler\<close>:
  its \<open>eventTypeString\<close> is a string and its \<open>handlerFunc\<close> is called with the event.
\<close>

record 'w eventHandler =
  target :: jsval
  eventTypeString :: string
  handlerFunc :: "event \<Rightarrow> ('w heap, jsval) js"

record 'w jsEvents =
  registerOrRemoveHandler :: "'w eventHandler \<Rightarrow> ('w heap, jsval) js"

text \<open>The \<open>WEBGL_lose_context\<close> extension object.\<close>

record 'w extension =
  loseContext :: "('w heap, jsval) js"

text \<open>
  A WebGL rendering context (\<open>gl\<close>, \<open>GLctx\<close>). \<open>getExtension\<close> gives \<open>None\<close> for a falsy
  result; \<open>canvas_width\<close> and \<open>canvas_height\<close> read \<open>gl.canvas.width\<close> and
  \<open>gl.canvas.height\<close>, the integer size of the backing store, at the time of the read.
\<close>

record 'w glctx =
  getExtension :: "string \<Rightarrow> ('w heap, 'w extension option) js"
  viewport :: "real \<Rightarrow> real \<Rightarrow> real \<Rightarrow> real \<Rightarrow> ('w heap, jsval) js"
  canvas_width :: "'w heap \<Rightarrow> int"
  canvas_height :: "'w heap \<Rightarrow> int"

text \<open>An entry of \<open>GL.contexts\<close>; its \<open>GLctx\<close> member is \<open>None\<close> when falsy.\<close>

record 'w glcontext =
  GLctx :: "'w glctx option"

text \<open>
  \<open>Module.GL\<close>. \<open>contexts\<close> reads the table as it is in the store: its own keys in the
  order \<open>Object.keys\<close> lists them, a \<open>null\<close> or \<open>undefined\<close> entry being \<open>None\<close>.
\<close>

record 'w gl =
  contexts :: "'w heap \<Rightarrow> (string \<times> 'w glcontext option) list"
  createContext :: "jsval list \<Rightarrow> ('w heap, jsval) js"
  getContext :: "jsval \<Rightarrow> ('w heap, 'w glcontext option) js"
  deleteContext :: "string \<Rightarrow> ('w heap, jsval) js"

text \<open>
  The module instance the factory returns. A member the build did not export behaves as a
  function that throws a \<open>TypeError\<close>; \<open>JSEvents\<close>, \<open>GL\<close> and \<open>specialHTMLTargets\<close> are
  \<open>None\<close> when absent.
\<close>

record 'w module =
  callMain :: "jsval \<Rightarrow> ('w heap, jsval) js"
  abort :: "jsval \<Rightarrow> ('w heap, jsval) js"
  pauseMainLoop :: "('w heap, jsval) js"
  resumeMainLoop :: "('w heap, jsval) js"
  specialHTMLTargets :: "(string \<rightharpoonup> jsval) option"
  JSEvents :: "'w jsEvents option"
  GL :: "'w gl option"

text \<open>
  The object \<open>_initializeModule\<close> hands to the factory. \<open>cfg_initialModule\<close> is what
  the spread of \<open>this.__initialModule\<close> contributes; the members written after the spread
  (\<open>noInitialRun\<close>, \<open>keyboardListeningElement\<close>, \<open>canvas\<close>, \<open>onAbort\<close>, \<open>print\<close>,
  \<open>printErr\<close>) replace any of the same name in it, and a \<open>locateFile\<close> of the caller's
  in it replaces \<open>cfg_locateFile\<close>, which is written before the spread.
\<close>

record 'w config =
  cfg_locateFile :: "jsval \<Rightarrow> jsval \<Rightarrow> ('w heap, jsval) js"
  cfg_initialModule :: "'w initialModule"
  cfg_noInitialRun :: bool
  cfg_keyboardListeningElement :: jsval
  cfg_canvas :: jsval
  cfg_onAbort :: "'w module \<Rightarrow> jsval \<Rightarrow> ('w heap, jsval) js"
  cfg_print :: "jsval list \<Rightarrow> ('w heap, jsval) js"
  cfg_printErr :: "jsval list \<Rightarrow> ('w heap, jsval) js"

text \<open>
  \<open>ModuleManager extends Manager\<close>. The factory is modelled together with the \<open>await\<close> on
  its result: it returns the module instance or throws the rejection.
\<close>

record 'w moduleManager = "'w manager" +
  moduleFactory :: "'w config \<Rightarrow> ('w heap, 'w module) js"
  moduleInstance :: "'w module option"

text \<open>
  The browser and the JavaScript engine, as far as the adapter calls them. Every member is
  a parameter: nothing is assumed of what the browser does.
  \<^item> \<open>fmul\<close> is the product of two numbers as \<open>*\<close> computes it (in double precision);
  \<^item> \<open>invoke obj name args\<close> is the method call \<open>obj.name(...args)\<close> on a host object;
  \<^item> \<open>awaitValue\<close> is \<open>await\<close> on a value a host call returned;
  \<^item> \<open>getProperty\<close> and \<open>setProperty\<close> read and write a property of a host object;
  \<^item> \<open>newFocusEvent ty t\<close> is \<open>new FocusEvent(ty, {relatedTarget: t})\<close>;
  \<^item> \<open>dispatchEvent\<close> is \<open>window.dispatchEvent\<close>;
  \<^item> \<open>getContextWebgl el\<close> is \<open>el.getContext('webgl')\<close>, \<open>None\<close> when falsy;
  \<^item> \<open>joinArgs\<close> is \<open>Array.prototype.slice.call(arguments).join(' ')\<close> and \<open>js_plus\<close> is \<open>+\<close>.
\<close>

record 'w host =
  devicePixelRatio :: "'w heap \<Rightarrow> real"
  fullscreenElement :: "'w heap \<Rightarrow> jsval"
  fmul :: "real \<Rightarrow> real \<Rightarrow> real"
  invoke :: "jsval \<Rightarrow> string \<Rightarrow> jsval list \<Rightarrow> ('w heap, jsval) js"
  awaitValue :: "jsval \<Rightarrow> ('w heap, jsval) js"
  getProperty :: "jsval \<Rightarrow> string \<Rightarrow> ('w heap, jsval) js"
  setProperty :: "jsval \<Rightarrow> string \<Rightarrow> jsval \<Rightarrow> ('w heap, jsval) js"
  newFocusEvent :: "string \<Rightarrow> jsval \<Rightarrow> ('w heap, event) js"
  dispatchEvent :: "event \<Rightarrow> ('w heap, jsval) js"
  isHTMLElement :: "jsval \<Rightarrow> bool"
  addEventListener :: "jsval \<Rightarrow> string \<Rightarrow> ('w heap, jsval) js \<Rightarrow> bool \<Rightarrow> ('w heap, jsval) js"
  getBoundingClientRect :: "jsval \<Rightarrow> ('w heap, real \<times> real) js"
  setWidth :: "jsval \<Rightarrow> real \<Rightarrow> ('w heap, jsval) js"
  setHeight :: "jsval \<Rightarrow> real \<Rightarrow> ('w heap, jsval) js"
  getWidth :: "jsval \<Rightarrow> ('w heap, real) js"
  getHeight :: "jsval \<Rightarrow> ('w heap, real) js"
  getContextWebgl :: "jsval \<Rightarrow> ('w heap, 'w glctx option) js"
  newURL :: "jsval \<Rightarrow> ('w heap, jsval) js"
  consoleLog :: "jsval \<Rightarrow> ('w heap, jsval) js"
  consoleError :: "jsval \<Rightarrow> ('w heap, jsval) js"
  joinArgs :: "jsval list \<Rightarrow> jsval"
  js_plus :: "jsval \<Rightarrow> jsval \<Rightarrow> jsval"

text \<open>Reading a toggle of \<open>this.__options\<close> from the store.\<close>

definition option_set :: "string \<Rightarrow> 'w heap \<Rightarrow> bool" where
  "option_set k s = truthy (obj_get (options s) k)"

section \<open>Manager: helpers shared with the subclass\<close>

definition isAbsoluteUrl :: "'w host \<Rightarrow> jsval \<Rightarrow> ('w heap, bool) js" where
  "isAbsoluteUrl H url =
     try_catch (bind_js (newURL H url) (\<lambda>_. ret True)) (\<lambda>e. ret False)"

definition getLocateFile :: "'w host \<Rightarrow> ('w, 'z) manager_scheme \<Rightarrow> jsval \<Rightarrow> jsval \<Rightarrow> ('w heap, jsval) js"
  where
  "getLocateFile H this path scriptDirectory =
     (if \<not> truthy (wasmPath this) then ret (js_plus H scriptDirectory path)
      else bind_js (isAbsoluteUrl H (wasmPath this)) (\<lambda>absolute.
             if \<not> absolute then ret (js_plus H scriptDirectory (wasmPath this))
             else ret (wasmPath this)))"

text \<open>
  One pass of the loop body of \<open>__disposeGlContexts\<close>, the part inside \<open>try\<close>. Reading
  \<open>.GLctx\<close> of a \<open>null\<close> entry, or \<open>.getExtension\<close> of a missing \<open>GLctx\<close>, throws a \<open>TypeError\<close>.
\<close>

definition disposeOne :: "'w gl \<Rightarrow> string \<Rightarrow> ('w heap, jsval) js" where
  "disposeOne G key =
     (\<lambda>s. case map_of (contexts G s) key of
             None \<Rightarrow> (Throw (JTypeError ''GL.contexts[key] is undefined''), s)
           | Some None \<Rightarrow> (Throw (JTypeError ''GL.contexts[key] is null''), s)
           | Some (Some ctx) \<Rightarrow>
               (case GLctx ctx of
                  None \<Rightarrow> (Throw (JTypeError ''GLctx is undefined''), s)
                | Some g \<Rightarrow>
                    bind_js (getExtension g ''WEBGL_lose_context'') (\<lambda>extension.
                    bind_js (case extension of
                               Some x \<Rightarrow> loseContext x
                             | None \<Rightarrow> ret JUndefined) (\<lambda>_.
                    deleteContext G key)) s))"

definition disposeGlContexts :: "'w module \<Rightarrow> ('w heap, jsval) js" where
  "disposeGlContexts m =
     (case GL m of
        None \<Rightarrow> ret JUndefined
      | Some G \<Rightarrow>
          (\<lambda>s. forEach (map fst (contexts G s))
                  (\<lambda>key. try_catch (disposeOne G key) (\<lambda>e. ret JUndefined)) s))"

definition getPrintHandler ::
  "'w host \<Rightarrow> ('w, 'z) manager_scheme \<Rightarrow> ('w heap, jsval list \<Rightarrow> ('w heap, jsval) js) js" where
  "getPrintHandler H this =
     bind_js (if truthy (consoleElement this)
              then setProperty H (consoleElement this) ''value'' (JStr [])
              else ret JUndefined) (\<lambda>_.
     ret (\<lambda>args.
       let text = (if length args > 1 then joinArgs H args else arg 0 args) in
       bind_js (consoleLog H text) (\<lambda>_.
       bind_js (if truthy (consoleElement this)
                then bind_js (getProperty H (consoleElement this) ''value'') (\<lambda>old.
                     bind_js (setProperty H (consoleElement this) ''value''
                                (js_plus H old (js_plus H text (JStr [CHR 0x0A])))) (\<lambda>_.
                     bind_js (getProperty H (consoleElement this) ''scrollHeight'') (\<lambda>h.
                     setProperty H (consoleElement this) ''scrollTop'' h)))
                else ret JUndefined) (\<lambda>_.
       case print (initialModule this) of
         Some predefinedPrint \<Rightarrow> bind_js (predefinedPrint text) (\<lambda>_. ret JUndefined)
       | None \<Rightarrow> ret JUndefined))))"

definition getPrintErrHandler :: "'w host \<Rightarrow> ('w, 'z) manager_scheme \<Rightarrow> jsval list \<Rightarrow> ('w heap, jsval) js"
  where
  "getPrintErrHandler H this args =
     (let text = (if length args > 1 then joinArgs H args else arg 0 args) in
      bind_js (consoleError H text) (\<lambda>_.
      case printErr (initialModule this) of
        Some predefinedPrintErr \<Rightarrow> bind_js (predefinedPrintErr text) (\<lambda>_. ret JUndefined)
      | None \<Rightarrow> ret JUndefined))"

section \<open>ModuleManager: public operations\<close>

definition ModuleManager_constructor ::
  "('w config \<Rightarrow> ('w heap, 'w module) js) \<Rightarrow> jsval \<Rightarrow> jsval \<Rightarrow> jsval \<Rightarrow> 'w userOptions
     \<Rightarrow> ('w heap, 'w moduleManager) js" where
  "ModuleManager_constructor factory component canvas console userOpts =
     bind_js (Manager_constructor component canvas console userOpts) (\<lambda>base.
     ret (manager.extend base
            (moduleManager.fields factory None)))"

text \<open>Calling a method of \<open>this._moduleInstance\<close> while it is still \<open>undefined\<close>.\<close>

definition noInstance :: "('s, 'a) js" where
  "noInstance = throw (JTypeError ''this._moduleInstance is undefined'')"

definition ModuleManager_callMain :: "'w moduleManager \<Rightarrow> jsval list \<Rightarrow> ('w heap, jsval promise) js"
  where
  "ModuleManager_callMain this args =
     async (case moduleInstance this of
              None \<Rightarrow> noInstance
            | Some m \<Rightarrow> bind_js (callMain m (arg 0 args)) (\<lambda>_. ret JUndefined))"

definition ModuleManager_abort :: "'w moduleManager \<Rightarrow> jsval list \<Rightarrow> ('w heap, jsval promise) js"
  where
  "ModuleManager_abort this args =
     (let what = (if arg 0 args = JUndefined then JStr ''Aborted by JS component.''
                  else arg 0 args) in
      async (try_catch
               (case moduleInstance this of
                  None \<Rightarrow> noInstance
                | Some m \<Rightarrow> bind_js (abort m what) (\<lambda>_. ret JUndefined))
               (\<lambda>e. ret JUndefined)))"

definition ModuleManager_pauseMainLoop :: "'w moduleManager \<Rightarrow> jsval list \<Rightarrow> ('w heap, jsval promise) js"
  where
  "ModuleManager_pauseMainLoop this args =
     async (case moduleInstance this of
              None \<Rightarrow> noInstance
            | Some m \<Rightarrow> bind_js (pauseMainLoop m) (\<lambda>_. ret JUndefined))"

definition ModuleManager_resumeMainLoop :: "'w moduleManager \<Rightarrow> jsval list \<Rightarrow> ('w heap, jsval promise) js"
  where
  "ModuleManager_resumeMainLoop this args =
     async (case moduleInstance this of
              None \<Rightarrow> noInstance
            | Some m \<Rightarrow> bind_js (resumeMainLoop m) (\<lambda>_. ret JUndefined))"

definition ModuleManager_requestFullscreen ::
  "'w host \<Rightarrow> 'w moduleManager \<Rightarrow> jsval list \<Rightarrow> ('w heap, jsval promise) js" where
  "ModuleManager_requestFullscreen H this args =
     async (bind_js (invoke H (canvasElement this) ''requestFullscreen'' []) (awaitValue H))"

text \<open>
  \<open>exitFullscreen\<close> is written as a call of \<open>exitFullscreen()\<close> on the canvas element. What
  that call does is the browser's business (\<open>invoke\<close>): in the DOM the method belongs to the
  document, so on an element the call throws a \<open>TypeError\<close> and the promise is rejected.
\<close>

definition ModuleManager_exitFullscreen ::
  "'w host \<Rightarrow> 'w moduleManager \<Rightarrow> jsval list \<Rightarrow> ('w heap, jsval promise) js" where
  "ModuleManager_exitFullscreen H this args =
     async (bind_js (invoke H (canvasElement this) ''exitFullscreen'' []) (awaitValue H))"

definition handleResizeCanvas :: "'w host \<Rightarrow> jsval \<Rightarrow> ('w heap, jsval) js" where
  "handleResizeCanvas H resizeEntry =
     bind_js (getProperty H resizeEntry ''target'') (\<lambda>t.
     bind_js (newFocusEvent H ''resize'' t) (\<lambda>event.
     bind_js (dispatchEvent H event) (\<lambda>_. ret JUndefined)))"

definition ModuleManager_onResizeCanvas ::
  "'w host \<Rightarrow> 'w moduleManager \<Rightarrow> jsval list \<Rightarrow> ('w heap, jsval) js" where
  "ModuleManager_onResizeCanvas H this args =
     (\<lambda>s. if option_set ''resizeCanvasOnElementSizing'' s
           then handleResizeCanvas H (arg 0 args) s
           else (Ret JUndefined, s))"

section \<open>ModuleManager: canvas fix-ups\<close>

definition fixCanvasSizing :: "'w host \<Rightarrow> ('w, 'z) manager_scheme \<Rightarrow> ('w heap, jsval) js" where
  "fixCanvasSizing H this =
     bind_js (getBoundingClientRect H (canvasElement this)) (\<lambda>(rect_width, rect_height).
     (\<lambda>s. let dpr = devicePixelRatio H s in
           bind_js (setWidth H (canvasElement this) (fmul H rect_width dpr)) (\<lambda>_.
           bind_js (setHeight H (canvasElement this) (fmul H rect_height dpr)) (\<lambda>_.
           ret JUndefined)) s))"

definition fixCanvasViewport :: "'w host \<Rightarrow> ('w, 'z) manager_scheme \<Rightarrow> ('w heap, jsval) js" where
  "fixCanvasViewport H this =
     bind_js (getContextWebgl H (canvasElement this)) (\<lambda>g.
     case g of
       None \<Rightarrow> ret JUndefined
     | Some gl \<Rightarrow>
         bind_js (getWidth H (canvasElement this)) (\<lambda>w.
         bind_js (getHeight H (canvasElement this)) (\<lambda>h.
         bind_js (viewport gl 0 0 w h) (\<lambda>_. ret JUndefined))))"

section \<open>ModuleManager: event handler patches\<close>

text \<open>The function that replaces \<open>handlerFunc\<close> of a key handler when TAB is not captured.\<close>

definition keyHandlerWrapper ::
  "(event \<Rightarrow> ('w heap, jsval) js) \<Rightarrow> event \<Rightarrow> ('w heap, jsval) js" where
  "keyHandlerWrapper predefinedHandlerFunc evt =
     (if \<not> strict_eq (keyCode evt) (JNum 9)
      then bind_js (predefinedHandlerFunc evt) (\<lambda>_. ret JUndefined)
      else ret JUndefined)"

text \<open>
  The patch functions mutate the \<open>eventHandler\<close> object they are given; the model returns
  the object as they leave it, next to the value they return.
\<close>

definition patchKeyEventHandler ::
  "('w, 'z) manager_scheme \<Rightarrow> 'w eventHandler \<Rightarrow> ('w heap, jsval \<times> 'w eventHandler) js" where
  "patchKeyEventHandler this eventHandler =
     (\<lambda>s. if \<not> strict_eq (target eventHandler) JWindow
              \<or> \<not> startsWith (eventTypeString eventHandler) ''key''
           then (Ret (JBool False, eventHandler), s)
           else
             let eh1 = (if option_set ''captureFocusOnComponent'' s
                        then eventHandler\<lparr>target := componentElement this\<rparr>
                        else eventHandler);
                 eh2 = (if \<not> option_set ''captureTabKey'' s
                        then eh1\<lparr>handlerFunc := keyHandlerWrapper (handlerFunc eh1)\<rparr>
                        else eh1)
             in (Ret (JBool True, eh2), s))"

text \<open>What the patched resize handler does after deciding about the original handler.\<close>

definition resizeFixups :: "'w host \<Rightarrow> ('w, 'z) manager_scheme \<Rightarrow> ('w heap, jsval) js" where
  "resizeFixups H this =
     (\<lambda>s. if option_set ''resizeCanvasOnFullscreenChange'' s
              \<and> strict_eq (fullscreenElement H s) (canvasElement this)
           then bind_js (fixCanvasSizing H this) (\<lambda>_.
                bind_js (fixCanvasViewport H this) (\<lambda>_. ret JUndefined)) s
           else if option_set ''resizeCanvasOnElementSizing'' s
           then bind_js (fixCanvasViewport H this) (\<lambda>_. ret JUndefined) s
           else (Ret JUndefined, s))"

definition resizeHandlerWrapper ::
  "'w host \<Rightarrow> ('w, 'z) manager_scheme \<Rightarrow> (event \<Rightarrow> ('w heap, jsval) js) \<Rightarrow> event
     \<Rightarrow> ('w heap, jsval) js" where
  "resizeHandlerWrapper H this predefinedHandlerFunc evt =
     bind_js (\<lambda>s. if option_set ''resizeCanvasOnElementSizing'' s
                   then (if strict_eq (relatedTarget evt) (canvasElement this)
                         then predefinedHandlerFunc evt s
                         else (Ret JUndefined, s))
                   else predefinedHandlerFunc evt s) (\<lambda>_.
     resizeFixups H this)"

definition patchResizeEventHandler ::
  "'w host \<Rightarrow> ('w, 'z) manager_scheme \<Rightarrow> 'w eventHandler
     \<Rightarrow> ('w heap, jsval \<times> 'w eventHandler) js" where
  "patchResizeEventHandler H this eventHandler =
     (if \<not> strict_eq (target eventHandler) JWindow \<or> eventTypeString eventHandler \<noteq> ''resize''
      then ret (JBool False, eventHandler)
      else ret (JBool True,
                eventHandler\<lparr>handlerFunc := resizeHandlerWrapper H this (handlerFunc eventHandler)\<rparr>))"

definition fullscreenchangeHandlerWrapper ::
  "'w host \<Rightarrow> ('w, 'z) manager_scheme \<Rightarrow> (event \<Rightarrow> ('w heap, jsval) js) \<Rightarrow> event
     \<Rightarrow> ('w heap, jsval) js" where
  "fullscreenchangeHandlerWrapper H this predefinedHandlerFunc evt =
     bind_js (predefinedHandlerFunc evt) (\<lambda>_.
     (\<lambda>s. let canvasWasFullscreen =
                 (\<not> truthy (fullscreenElement H s)
                  \<and> (strict_eq (evt_target evt) (canvasElement this)
                      \<or> strict_eq (srcElement evt) (canvasElement this)))
           in if canvasWasFullscreen
              then bind_js (fixCanvasSizing H this) (\<lambda>_.
                   bind_js (fixCanvasViewport H this) (\<lambda>_. ret JUndefined)) s
              else (Ret JUndefined, s)))"

definition patchFullscreenchangedEventHandler ::
  "'w host \<Rightarrow> ('w, 'z) manager_scheme \<Rightarrow> 'w eventHandler
     \<Rightarrow> ('w heap, jsval \<times> 'w eventHandler) js" where
  "patchFullscreenchangedEventHandler H this eventHandler =
     (\<lambda>s. if \<not> option_set ''resizeCanvasOnFullscreenChange'' s
           then (Ret (JUndefined, eventHandler), s)
           else if \<not> strict_eq (target eventHandler) JDocument
                   \<or> \<not> endsWith (eventTypeString eventHandler) ''fullscreenchange''
           then (Ret (JBool False, eventHandler), s)
           else (Ret (JBool True,
                      eventHandler\<lparr>handlerFunc :=
                        fullscreenchangeHandlerWrapper H this (handlerFunc eventHandler)\<rparr>), s))"

text \<open>
  The three patches chained by \<open>||\<close>: a patch runs only when every patch before it returned
  a falsy value.
\<close>

definition patchEventHandler ::
  "'w host \<Rightarrow> ('w, 'z) manager_scheme \<Rightarrow> 'w eventHandler
     \<Rightarrow> ('w heap, jsval \<times> 'w eventHandler) js" where
  "patchEventHandler H this eventHandler =
     bind_js (patchKeyEventHandler this eventHandler) (\<lambda>(r1, eh1).
     if truthy r1 then ret (r1, eh1)
     else bind_js (patchResizeEventHandler H this eh1) (\<lambda>(r2, eh2).
          if truthy r2 then ret (r2, eh2)
          else patchFullscreenchangedEventHandler H this eh2))"

text \<open>The function installed as \<open>JSEvents.registerOrRemoveHandler\<close>.\<close>

definition patchedRegisterOrRemoveHandler ::
  "'w host \<Rightarrow> ('w, 'z) manager_scheme \<Rightarrow> ('w eventHandler \<Rightarrow> ('w heap, jsval) js)
     \<Rightarrow> 'w eventHandler \<Rightarrow> ('w heap, jsval) js" where
  "patchedRegisterOrRemoveHandler H this predefinedFunction eventHandler =
     bind_js (patchEventHandler H this eventHandler) (\<lambda>(r, eh).
     bind_js (predefinedFunction eh) (\<lambda>_. ret JUndefined))"

definition patchEventHandlers ::
  "'w host \<Rightarrow> ('w, 'z) manager_scheme \<Rightarrow> 'w module \<Rightarrow> ('w heap, 'w module) js" where
  "patchEventHandlers H this m =
     (case JSEvents m of
        None \<Rightarrow> throw (JTypeError ''JSEvents is undefined'')
      | Some je \<Rightarrow>
          ret (m\<lparr>JSEvents := Some (je\<lparr>registerOrRemoveHandler :=
                 patchedRegisterOrRemoveHandler H this (registerOrRemoveHandler je)\<rparr>)\<rparr>))"

section \<open>ModuleManager: the viewport patch\<close>

definition patchedViewport ::
  "'w host \<Rightarrow> 'w glctx \<Rightarrow> (real \<Rightarrow> real \<Rightarrow> real \<Rightarrow> real \<Rightarrow> ('w heap, jsval) js)
     \<Rightarrow> real \<Rightarrow> real \<Rightarrow> real \<Rightarrow> real \<Rightarrow> ('w heap, jsval) js" where
  "patchedViewport H gl predefinedViewport x0 y0 w0 h0 =
     (\<lambda>s. let dpr = devicePixelRatio H s in
           if dpr \<noteq> 1 then
             let w = \<lfloor>fmul H w0 dpr\<rfloor>;
                 h = \<lfloor>fmul H h0 dpr\<rfloor>;
                 roundingError = 1
             in if (w \<ge> canvas_width gl s \<and> w \<le> roundingError + canvas_width gl s)
                   \<and> (h \<ge> canvas_height gl s \<and> h \<le> roundingError + canvas_height gl s)
                then bind_js (predefinedViewport x0 y0 (of_int (canvas_width gl s))
                                (of_int (canvas_height gl s))) (\<lambda>_. ret JUndefined) s
                else bind_js (predefinedViewport x0 y0 w0 h0) (\<lambda>_. ret JUndefined) s
           else bind_js (predefinedViewport x0 y0 w0 h0) (\<lambda>_. ret JUndefined) s)"

text \<open>
  The function installed as \<open>GL.createContext\<close>. It returns the handle; the assignment
  \<open>gl.viewport = patchedViewport\<close> changes the rendering context object in place, so the
  model returns that object too, as the call leaves it (\<open>None\<close> when the call did not reach
  the assignment).
\<close>

definition patchedCreateContext ::
  "'w host \<Rightarrow> 'w gl \<Rightarrow> (jsval list \<Rightarrow> ('w heap, jsval) js) \<Rightarrow> jsval list
     \<Rightarrow> ('w heap, jsval \<times> 'w glctx option) js" where
  "patchedCreateContext H G predefinedCreateContext args =
     bind_js (predefinedCreateContext args) (\<lambda>handle.
     if \<not> truthy handle then ret (handle, None)
     else bind_js (getContext G handle) (\<lambda>c.
          case c of
            None \<Rightarrow> throw (JTypeError ''GL.getContext(handle) is undefined'')
          | Some ctx \<Rightarrow>
              (case GLctx ctx of
                 None \<Rightarrow> ret (handle, None)
               | Some gl \<Rightarrow>
                   ret (handle, Some (gl\<lparr>viewport := patchedViewport H gl (viewport gl)\<rparr>)))))"

definition patchGlViewport :: "'w host \<Rightarrow> 'w module \<Rightarrow> ('w heap, 'w module) js" where
  "patchGlViewport H m =
     (\<lambda>s. if \<not> option_set ''adjustViewportByDevicePixelRatio'' s then (Ret m, s)
           else case GL m of
                  None \<Rightarrow> (Ret m, s)
                | Some G \<Rightarrow>
                    (Ret (m\<lparr>GL := Some (G\<lparr>createContext :=
                            (\<lambda>args. bind_js (patchedCreateContext H G (createContext G) args)
                                      (\<lambda>(handle, gl). ret handle))\<rparr>)\<rparr>), s))"

section \<open>ModuleManager: initialisation and abort\<close>

definition patchCanvasQueries ::
  "'w host \<Rightarrow> ('w, 'z) manager_scheme \<Rightarrow> 'w module \<Rightarrow> ('w heap, 'w module) js" where
  "patchCanvasQueries H this m =
     (\<lambda>s. if \<not> option_set ''redirectCanvasRequests'' s then (Ret m, s)
           else if isHTMLElement H (canvasElement this)
           then (case specialHTMLTargets m of
                   None \<Rightarrow> (Throw (JTypeError ''specialHTMLTargets is undefined''), s)
                 | Some t \<Rightarrow>
                     (Ret (m\<lparr>specialHTMLTargets := Some (t(''#canvas'' \<mapsto> canvasElement this))\<rparr>), s))
           else (Ret m, s))"

definition attachFocusInvokers :: "'w host \<Rightarrow> ('w, 'z) manager_scheme \<Rightarrow> ('w heap, jsval) js" where
  "attachFocusInvokers H this =
     (\<lambda>s. if \<not> option_set ''captureFocusOnComponent'' s then (Ret JUndefined, s)
           else
             let handler = bind_js (invoke H (componentElement this) ''focus'' []) (\<lambda>_. ret JUndefined)
             in if isHTMLElement H (canvasElement this)
                then bind_js (addEventListener H (canvasElement this) ''mousedown'' handler True) (\<lambda>_.
                     bind_js (addEventListener H (canvasElement this) ''touchstart'' handler True) (\<lambda>_.
                     ret JUndefined)) s
                else (Ret JUndefined, s))"

definition patchModule ::
  "'w host \<Rightarrow> ('w, 'z) manager_scheme \<Rightarrow> 'w module \<Rightarrow> ('w heap, 'w module) js" where
  "patchModule H this m =
     bind_js (patchCanvasQueries H this m) (\<lambda>m1.
     bind_js (attachFocusInvokers H this) (\<lambda>_.
     bind_js (patchGlViewport H m1) (\<lambda>m2.
     patchEventHandlers H this m2)))"

text \<open>The \<open>onAbort\<close> handler; \<open>m\<close> is the module object it is called on (its \<open>this\<close>).\<close>

definition getAbortHandler ::
  "('w, 'z) manager_scheme \<Rightarrow> 'w module \<Rightarrow> jsval \<Rightarrow> ('w heap, jsval) js" where
  "getAbortHandler this m what =
     bind_js (\<lambda>s. if option_set ''disposeCanvasOnAbort'' s
                   then disposeGlContexts m s
                   else (Ret JUndefined, s)) (\<lambda>_.
     case onAbort (initialModule this) of
       Some userOnAbort \<Rightarrow> bind_js (userOnAbort what) (\<lambda>_. ret JUndefined)
     | None \<Rightarrow> ret JUndefined)"

text \<open>
  The object literal of \<open>_initializeModule\<close>. The two toggles are read from the store \<open>s\<close>
  in which the literal starts to be evaluated; \<open>printHandler\<close> is what \<open>__getPrintHandler()\<close>
  returned.
\<close>

definition moduleConfig ::
  "'w host \<Rightarrow> 'w moduleManager \<Rightarrow> 'w heap \<Rightarrow> (jsval list \<Rightarrow> ('w heap, jsval) js) \<Rightarrow> 'w config"
  where
  "moduleConfig H this s printHandler =
     \<lparr>cfg_locateFile = getLocateFile H this,
      cfg_initialModule = initialModule this,
      cfg_noInitialRun = True,
      cfg_keyboardListeningElement =
        (if option_set ''captureFocusOnComponent'' s then componentElement this else JUndefined),
      cfg_canvas =
        (if option_set ''redirectCanvasRequests'' s then canvasElement this else JUndefined),
      cfg_onAbort = getAbortHandler this,
      cfg_print = printHandler,
      cfg_printErr = getPrintErrHandler H this\<rparr>"

text \<open>
  \<open>_initializeModule\<close>. On success the model returns \<open>this\<close> with \<open>_moduleInstance\<close> set to
  the patched module.
\<close>

definition initializeModule ::
  "'w host \<Rightarrow> 'w moduleManager \<Rightarrow> ('w heap, 'w moduleManager promise) js" where
  "initializeModule H this =
     async
       (\<lambda>s. bind_js (getPrintHandler H this) (\<lambda>printHandler.
             bind_js (moduleFactory this (moduleConfig H this s printHandler)) (\<lambda>instance.
             bind_js (patchModule H this instance) (\<lambda>patched.
             ret (this\<lparr>moduleInstance := Some patched\<rparr>)))) s)"

definition ModuleManager_initialize ::
  "'w host \<Rightarrow> ('w config \<Rightarrow> ('w heap, 'w module) js) \<Rightarrow> jsval \<Rightarrow> jsval \<Rightarrow> jsval
     \<Rightarrow> 'w userOptions \<Rightarrow> ('w heap, 'w moduleManager promise) js" where
  "ModuleManager_initialize H factory component canvas console userOpts =
     async
       (bind_js (ModuleManager_constructor factory component canvas console userOpts) (\<lambda>manager.
        await (initializeModule H manager)))"

section \<open>Vocabulary of the specification\<close>

text \<open>The three kinds of event handler the specification says are intercepted.\<close>

definition key_kind :: "'w eventHandler \<Rightarrow> bool" where
  "key_kind eh = (target eh = JWindow \<and> startsWith (eventTypeString eh) ''key'')"

definition resize_kind :: "'w eventHandler \<Rightarrow> bool" where
  "resize_kind eh = (target eh = JWindow \<and> eventTypeString eh = ''resize'')"

definition fullscreenchange_kind :: "'w eventHandler \<Rightarrow> bool" where
  "fullscreenchange_kind eh =
     (target eh = JDocument \<and> endsWith (eventTypeString eh) ''fullscreenchange'')"

text \<open>
  A direct forward by an \<open>async\<close> method that drops the value of the call it makes:
  given the outcome of that one call, what the method's caller gets.
\<close>

definition forwarded :: "'a res \<times> 's \<Rightarrow> jsval promise res \<times> 's" where
  "forwarded r =
     (case r of
        (Ret v, s') \<Rightarrow> (Ret (Resolved JUndefined), s')
      | (Throw e, s') \<Rightarrow> (Ret (Rejected e), s'))"

text \<open>The same for an \<open>async\<close> method that returns the value of the call.\<close>

definition settled :: "'a res \<times> 's \<Rightarrow> 'a promise res \<times> 's" where
  "settled r =
     (case r of
        (Ret v, s') \<Rightarrow> (Ret (Resolved v), s')
      | (Throw e, s') \<Rightarrow> (Ret (Rejected e), s'))"

text \<open>A synchronous call whose value is dropped.\<close>

definition dropped :: "'a res \<times> 's \<Rightarrow> jsval res \<times> 's" where
  "dropped r =
     (case r of
        (Ret v, s') \<Rightarrow> (Ret JUndefined, s')
      | (Throw e, s') \<Rightarrow> (Throw e, s'))"

text \<open>"Within one pixel", read as the specification's words say: at most one apart, either way.\<close>

definition within_one_pixel :: "int \<Rightarrow> int \<Rightarrow> bool" where
  "within_one_pixel a b = (\<bar>a - b\<bar> \<le> 1)"

text \<open>
  Code outside the adapter (the wrapped module, the browser, the caller's callbacks) can
  reach any object, so its calls are arbitrary functions on the store. "Immutable after
  construction" is a statement about the adapter's own code: it is stated relative to
  outside code that does not write to the options record itself. \<open>keeps m\<close> says that a
  call never changes the options record; \<open>returns m Q\<close> that whatever it returns satisfies
  \<open>Q\<close>. The \<open>_ok\<close> predicates say it of every function of an outside object, and of the
  objects those functions hand back.
\<close>

definition keeps :: "('w heap, 'a) js \<Rightarrow> bool" where
  "keeps m = (\<forall>s. options (snd (m s)) = options s)"

definition returns :: "('s, 'a) js \<Rightarrow> ('a \<Rightarrow> bool) \<Rightarrow> bool" where
  "returns m Q = (\<forall>s v. fst (m s) = Ret v \<longrightarrow> Q v)"

definition extension_ok :: "'w extension \<Rightarrow> bool" where
  "extension_ok x = keeps (loseContext x)"

definition glctx_ok :: "'w glctx \<Rightarrow> bool" where
  "glctx_ok g =
     ((\<forall>x y w h. keeps (viewport g x y w h)) \<and>
      (\<forall>name. keeps (getExtension g name) \<and>
              returns (getExtension g name) (\<lambda>r. \<forall>x. r = Some x \<longrightarrow> extension_ok x)))"

definition glcontext_ok :: "'w glcontext \<Rightarrow> bool" where
  "glcontext_ok c = (\<forall>g. GLctx c = Some g \<longrightarrow> glctx_ok g)"

definition gl_ok :: "'w gl \<Rightarrow> bool" where
  "gl_ok G =
     ((\<forall>s key c. map_of (contexts G s) key = Some (Some c) \<longrightarrow> glcontext_ok c) \<and>
      (\<forall>args. keeps (createContext G args)) \<and>
      (\<forall>handle. keeps (getContext G handle) \<and>
                returns (getContext G handle) (\<lambda>r. \<forall>c. r = Some c \<longrightarrow> glcontext_ok c)) \<and>
      (\<forall>key. keeps (deleteContext G key)))"

definition handler_ok :: "'w eventHandler \<Rightarrow> bool" where
  "handler_ok eh = (\<forall>evt. keeps (handlerFunc eh evt))"

definition jsEvents_ok :: "'w jsEvents \<Rightarrow> bool" where
  "jsEvents_ok je = (\<forall>eh. handler_ok eh \<longrightarrow> keeps (registerOrRemoveHandler je eh))"

definition module_ok :: "'w module \<Rightarrow> bool" where
  "module_ok m =
     ((\<forall>a. keeps (callMain m a)) \<and> (\<forall>a. keeps (abort m a)) \<and>
      keeps (pauseMainLoop m) \<and> keeps (resumeMainLoop m) \<and>
      (\<forall>je. JSEvents m = Some je \<longrightarrow> jsEvents_ok je) \<and>
      (\<forall>G. GL m = Some G \<longrightarrow> gl_ok G))"

definition initialModule_ok :: "'w initialModule \<Rightarrow> bool" where
  "initialModule_ok im =
     ((\<forall>f a. onAbort im = Some f \<longrightarrow> keeps (f a)) \<and>
      (\<forall>f a. print im = Some f \<longrightarrow> keeps (f a)) \<and>
      (\<forall>f a. printErr im = Some f \<longrightarrow> keeps (f a)))"

definition config_ok :: "'w config \<Rightarrow> bool" where
  "config_ok cfg =
     ((\<forall>path dir. keeps (cfg_locateFile cfg path dir)) \<and>
      initialModule_ok (cfg_initialModule cfg) \<and>
      (\<forall>m what. module_ok m \<longrightarrow> keeps (cfg_onAbort cfg m what)) \<and>
      (\<forall>args. keeps (cfg_print cfg args)) \<and>
      (\<forall>args. keeps (cfg_printErr cfg args)))"

definition factory_ok :: "('w config \<Rightarrow> ('w heap, 'w module) js) \<Rightarrow> bool" where
  "factory_ok factory =
     (\<forall>cfg. config_ok cfg \<longrightarrow> keeps (factory cfg) \<and> returns (factory cfg) module_ok)"

definition host_ok :: "'w host \<Rightarrow> bool" where
  "host_ok H =
     ((\<forall>obj name args. keeps (invoke H obj name args)) \<and>
      (\<forall>v. keeps (awaitValue H v)) \<and>
      (\<forall>obj name. keeps (getProperty H obj name)) \<and>
      (\<forall>obj name v. keeps (setProperty H obj name v)) \<and>
      (\<forall>ty t. keeps (newFocusEvent H ty t)) \<and>
      (\<forall>evt. keeps (dispatchEvent H evt)) \<and>
      (\<forall>el ty h capture. keeps h \<longrightarrow> keeps (addEventListener H el ty h capture)) \<and>
      (\<forall>el. keeps (getBoundingClientRect H el)) \<and>
      (\<forall>el w. keeps (setWidth H el w)) \<and>
      (\<forall>el h. keeps (setHeight H el h)) \<and>
      (\<forall>el. keeps (getWidth H el)) \<and>
      (\<forall>el. keeps (getHeight H el)) \<and>
      (\<forall>el. keeps (getContextWebgl H el) \<and>
            returns (getContextWebgl H el) (\<lambda>r. \<forall>g. r = Some g \<longrightarrow> glctx_ok g)) \<and>
      (\<forall>url. keeps (newURL H url)) \<and>
      (\<forall>v. keeps (consoleLog H v)) \<and>
      (\<forall>v. keeps (consoleError H v)))"

definition manager_ok :: "'w moduleManager \<Rightarrow> bool" where
  "manager_ok this =
     (initialModule_ok (initialModule this) \<and>
      factory_ok (moduleFactory this) \<and>
      (\<forall>m. moduleInstance this = Some m \<longrightarrow> module_ok m))"

section \<open>A recording world\<close>

text \<open>
  A concrete world for running the model: the world is the list of calls made so far to
  the wrapped module and to the browser, each with its arguments.
\<close>

datatype call = Call string "jsval list"

definition logged :: "call \<Rightarrow> 'a \<Rightarrow> (call list heap, 'a) js" where
  "logged c v = (\<lambda>s. (Ret v, s\<lparr>world := world s @ [c]\<rparr>))"

definition failing :: "call \<Rightarrow> jsval \<Rightarrow> (call list heap, 'a) js" where
  "failing c e = (\<lambda>s. (Throw e, s\<lparr>world := world s @ [c]\<rparr>))"

definition traceStore :: "call list heap" where
  "traceStore = \<lparr>options = defaultOptions, world = []\<rparr>"

definition traceExtension :: "call list extension" where
  "traceExtension = \<lparr>loseContext = logged (Call ''loseContext'' []) JUndefined\<rparr>"

text \<open>A rendering context on a canvas whose backing store is 201 by 100 pixels.\<close>

definition traceGlctx :: "call list glctx" where
  "traceGlctx =
     \<lparr>getExtension = (\<lambda>name. logged (Call ''getExtension'' [JStr name]) (Some traceExtension)),
      viewport = (\<lambda>x y w h. logged (Call ''viewport'' [JNum x, JNum y, JNum w, JNum h]) JUndefined),
      canvas_width = (\<lambda>s. 201),
      canvas_height = (\<lambda>s. 100)\<rparr>"

text \<open>A rendering context that has already been lost: asking it for an extension throws.\<close>

definition lostGlctx :: "call list glctx" where
  "lostGlctx =
     traceGlctx\<lparr>getExtension :=
       (\<lambda>name. failing (Call ''getExtension (lost)'' [JStr name]) (JError ''context lost''))\<rparr>"

text \<open>A contexts table with a stale \<open>null\<close> entry, a lost context and a live one.\<close>

definition traceGL :: "call list gl" where
  "traceGL =
     \<lparr>contexts = (\<lambda>s. [(''1'', None),
                        (''2'', Some \<lparr>GLctx = Some lostGlctx\<rparr>),
                        (''3'', Some \<lparr>GLctx = Some traceGlctx\<rparr>)]),
      createContext = (\<lambda>args. logged (Call ''GL.createContext'' args) (JNum 3)),
      getContext = (\<lambda>handle. ret (Some \<lparr>GLctx = Some traceGlctx\<rparr>)),
      deleteContext = (\<lambda>key. logged (Call ''GL.deleteContext'' [JStr key]) JUndefined)\<rparr>"

text \<open>A module whose entry points record that they were called; its \<open>abort\<close> throws, as Emscripten's does.\<close>

definition traceModule :: "call list module" where
  "traceModule =
     \<lparr>callMain = (\<lambda>a. logged (Call ''Module.callMain'' [a]) JUndefined),
      abort = (\<lambda>what. failing (Call ''Module.abort'' [what]) (JError ''RuntimeError'')),
      pauseMainLoop = logged (Call ''Module.pauseMainLoop'' []) JUndefined,
      resumeMainLoop = logged (Call ''Module.resumeMainLoop'' []) JUndefined,
      specialHTMLTargets = Some Map.empty,
      JSEvents = Some \<lparr>registerOrRemoveHandler =
        (\<lambda>eh. logged (Call ''JSEvents.registerOrRemoveHandler''
                         [target eh, JStr (eventTypeString eh)]) JUndefined)\<rparr>,
      GL = Some traceGL\<rparr>"

text \<open>A browser with a device pixel ratio of 2 and nothing in fullscreen.\<close>

definition traceHost :: "call list host" where
  "traceHost =
     \<lparr>devicePixelRatio = (\<lambda>s. 2),
      fullscreenElement = (\<lambda>s. JNull),
      fmul = (\<lambda>a b. a * b),
      invoke = (\<lambda>obj name args. logged (Call name (obj # args)) JUndefined),
      awaitValue = ret,
      getProperty = (\<lambda>obj name. ret (JElem 2)),
      setProperty = (\<lambda>obj name v. logged (Call (''set '' @ name) [obj, v]) JUndefined),
      newFocusEvent = (\<lambda>ty t. ret \<lparr>keyCode = JUndefined, relatedTarget = t,
                                     evt_target = JNull, srcElement = JNull\<rparr>),
      dispatchEvent = (\<lambda>evt. logged (Call ''window.dispatchEvent'' [relatedTarget evt]) (JBool True)),
      isHTMLElement = (\<lambda>v. case v of JElem n \<Rightarrow> True | _ \<Rightarrow> False),
      addEventListener = (\<lambda>el ty h capture. logged (Call ''addEventListener'' [el, JStr ty]) JUndefined),
      getBoundingClientRect = (\<lambda>el. ret (100, 50)),
      setWidth = (\<lambda>el w. logged (Call ''set width'' [el, JNum w]) JUndefined),
      setHeight = (\<lambda>el h. logged (Call ''set height'' [el, JNum h]) JUndefined),
      getWidth = (\<lambda>el. ret 201),
      getHeight = (\<lambda>el. ret 100),
      getContextWebgl = (\<lambda>el. ret (Some traceGlctx)),
      newURL = (\<lambda>url. throw (JTypeError ''Invalid URL'')),
      consoleLog = (\<lambda>v. logged (Call ''console.log'' [v]) JUndefined),
      consoleError = (\<lambda>v. logged (Call ''console.error'' [v]) JUndefined),
      joinArgs = (\<lambda>args. arg 0 args),
      js_plus = (\<lambda>a b. a)\<rparr>"

text \<open>A manager on component element 1 and canvas element 2, with and without a module instance.\<close>

definition traceManager :: "call list moduleManager" where
  "traceManager =
     \<lparr>componentElement = JElem 1,
      canvasElement = JElem 2,
      consoleElement = JNull,
      initialModule = emptyInitialModule,
      wasmPath = JUndefined,
      moduleFactory = (\<lambda>cfg. logged (Call ''moduleFactory'' [cfg_canvas cfg]) traceModule),
      moduleInstance = Some traceModule\<rparr>"

definition bareManager :: "call list moduleManager" where
  "bareManager = traceManager\<lparr>moduleInstance := None\<rparr>"

text \<open>A handler the module registers: it records the key code and related target of each event.\<close>

definition traceHandlerFunc :: "event \<Rightarrow> (call list heap, jsval) js" where
  "traceHandlerFunc evt = logged (Call ''handlerFunc'' [keyCode evt, relatedTarget evt]) (JBool True)"

definition keydownHandler :: "call list eventHandler" where
  "keydownHandler = \<lparr>target = JWindow, eventTypeString = ''keydown'', handlerFunc = traceHandlerFunc\<rparr>"

definition resizeHandler :: "call list eventHandler" where
  "resizeHandler = \<lparr>target = JWindow, eventTypeString = ''resize'', handlerFunc = traceHandlerFunc\<rparr>"

definition mousedownHandler :: "call list eventHandler" where
  "mousedownHandler = \<lparr>target = JElem 2, eventTypeString = ''mousedown'', handlerFunc = traceHandlerFunc\<rparr>"

definition keyEvent :: "real \<Rightarrow> event" where
  "keyEvent code = \<lparr>keyCode = JNum code, relatedTarget = JUndefined,
                    evt_target = JWindow, srcElement = JWindow\<rparr>"

text \<open>An ordinary resize of the window, and the synthetic one \<open>_handleResizeCanvas\<close> dispatches for an element.\<close>

definition windowResizeEvent :: event where
  "windowResizeEvent = \<lparr>keyCode = JUndefined, relatedTarget = JUndefined,
                         evt_target = JWindow, srcElement = JWindow\<rparr>"

definition elementResizeEvent :: "jsval \<Rightarrow> event" where
  "elementResizeEvent el = \<lparr>keyCode = JUndefined, relatedTarget = el,
                            evt_target = JWindow, srcElement = JWindow\<rparr>"

section \<open>Properties\<close>

subsection \<open>Auxiliary facts\<close>

lemma defaultOptions_documented: "defaultOptions k = documented_default k"
  by (simp add: defaultOptions_def documented_default_def)

lemma getDefaultOptionsForVersion_eq: "getDefaultOptionsForVersion u = defaultOptions"
  by (simp add: getDefaultOptionsForVersion_def)

lemma strict_eq_simps [simp]:
  "strict_eq JWindow JWindow" "strict_eq JDocument JDocument"
  "strict_eq x (JElem c) = (x = JElem c)"
  "strict_eq x (JNum n) = (x = JNum n)"
  "strict_eq x JWindow = (x = JWindow)"
  "strict_eq x JDocument = (x = JDocument)"
  by (auto simp: strict_eq_def)

lemmas trace_defs = traceStore_def traceHost_def traceGL_def traceGlctx_def lostGlctx_def
  traceExtension_def traceModule_def traceManager_def bareManager_def logged_def failing_def
  traceHandlerFunc_def keydownHandler_def resizeHandler_def mousedownHandler_def keyEvent_def
  windowResizeEvent_def elementResizeEvent_def

lemmas option_defs = option_set_def obj_get_def defaultOptions_def

lemma async_bind_drop: "async (bind_js m (\<lambda>_. ret JUndefined)) s = forwarded (m s)"
  by (simp add: async_def bind_js_def ret_def forwarded_def split: prod.split res.split)

lemma async_settled: "async m s = settled (m s)"
  by (simp add: async_def settled_def)

lemma async_await_async: "async (await (async m)) = async m"
  by (rule ext) (simp add: await_def async_def split: prod.split res.split)

lemma abort_swallow:
  "async (try_catch (bind_js m (\<lambda>_. ret JUndefined)) (\<lambda>e. ret JUndefined)) s =
     (Ret (Resolved JUndefined), snd (m s))"
  by (simp add: async_def try_catch_def bind_js_def ret_def split: prod.split res.split)

lemma try_catch_swallow:
  "\<exists>r. try_catch m (\<lambda>e. ret v) s = (Ret r, snd (m s))"
  by (cases "m s"; cases "fst (m s)") (auto simp: try_catch_def ret_def)

text \<open>A loop whose body swallows every exception runs the body on every element.\<close>

lemma forEach_try_catch:
  "forEach keys (\<lambda>key. try_catch (body key) (\<lambda>e. ret JUndefined)) s =
     (Ret JUndefined, fold (\<lambda>key t. snd (body key t)) keys s)"
proof (induction keys arbitrary: s)
  case Nil
  show ?case by (simp add: ret_def)
next
  case (Cons key keys)
  obtain r where "try_catch (body key) (\<lambda>e. ret JUndefined) s = (Ret r, snd (body key s))"
    using try_catch_swallow [of "body key" JUndefined s] by blast
  then show ?case
    by (simp add: bind_js_def Cons.IH)
qed

lemma Manager_invoke_outcome:
  "\<exists>msg. unimplemented_error (JError msg) \<and>
      Manager_invoke m args s =
        (if is_async m then RejectedWith (JError msg) else Thrown (JError msg))"
  by (cases m)
    (simp_all add: sync_outcome_def async_outcome_def async_def throw_def startsWith_def endsWith_def
      Manager_initialize_def Manager_callMain_def Manager_abort_def Manager_pauseMainLoop_def
      Manager_resumeMainLoop_def Manager_requestFullscreen_def Manager_exitFullscreen_def
      Manager_onResizeCanvas_def Manager_initializeModule_def Manager_patchModule_def)

lemma patchedViewport_eq:
  "patchedViewport H gl pv x0 y0 w0 h0 t =
     (let dpr = devicePixelRatio H t;
          w = \<lfloor>fmul H w0 dpr\<rfloor>;
          h = \<lfloor>fmul H h0 dpr\<rfloor>;
          snap = (dpr \<noteq> 1
                  \<and> (w = canvas_width gl t \<or> w = canvas_width gl t + 1)
                  \<and> (h = canvas_height gl t \<or> h = canvas_height gl t + 1))
      in dropped (pv x0 y0 (if snap then of_int (canvas_width gl t) else w0)
                          (if snap then of_int (canvas_height gl t) else h0) t))"
proof -
  have a: "\<And>w c::int. (c \<le> w \<and> w \<le> 1 + c) = (w = c \<or> w = c + 1)" by auto
  show ?thesis
    unfolding patchedViewport_def Let_def a
    by (simp add: dropped_def bind_js_def ret_def)
qed

lemma patchEventHandler_key:
  assumes "key_kind eh"
  shows "patchEventHandler H this eh s =
           (Ret (JBool True,
                 eh\<lparr>target := (if option_set ''captureFocusOnComponent'' s
                                 then componentElement this else target eh),
                     handlerFunc := (if \<not> option_set ''captureTabKey'' s
                                     then keyHandlerWrapper (handlerFunc eh)
                                     else handlerFunc eh)\<rparr>), s)"
  using assms
  by (simp add: patchEventHandler_def patchKeyEventHandler_def key_kind_def Let_def
      bind_js_def ret_def)

lemma patchEventHandler_resize:
  assumes "resize_kind eh"
  shows "patchEventHandler H this eh s =
           (Ret (JBool True, eh\<lparr>handlerFunc := resizeHandlerWrapper H this (handlerFunc eh)\<rparr>), s)"
  using assms
  by (simp add: patchEventHandler_def patchKeyEventHandler_def patchResizeEventHandler_def
      resize_kind_def startsWith_def Let_def bind_js_def ret_def)

lemma resizeHandlerWrapper_eq:
  "resizeHandlerWrapper H this f evt t =
        (if option_set ''resizeCanvasOnElementSizing'' t
            \<and> \<not> strict_eq (relatedTarget evt) (canvasElement this)
         then resizeFixups H this t
         else case f evt t of
                (Ret v, t') \<Rightarrow> resizeFixups H this t'
              | (Throw e, t') \<Rightarrow> (Throw e, t'))"
  by (simp add: resizeHandlerWrapper_def bind_js_def)

lemma patchEventHandler_result:
  "\<exists>r eh'. patchEventHandler H this eh s = (Ret (r, eh'), s) \<and>
      (\<not> key_kind eh \<and> \<not> resize_kind eh \<and> \<not> fullscreenchange_kind eh \<longrightarrow> eh' = eh)"
  by (auto simp add: patchEventHandler_def patchKeyEventHandler_def patchResizeEventHandler_def
      patchFullscreenchangedEventHandler_def key_kind_def resize_kind_def
      fullscreenchange_kind_def Let_def bind_js_def ret_def)

lemma constructor_result:
  "\<exists>manager. ModuleManager_constructor factory component canvas console userOpts s =
                (Ret manager, setOptions (props userOpts) s) \<and>
              moduleFactory manager = factory \<and> moduleInstance manager = None"
  by (simp add: ModuleManager_constructor_def Manager_constructor_def bind_js_def ret_def
      manager.defs moduleManager.defs)

lemma initializeModule_eq:
  "initializeModule H this s =
     (case getPrintHandler H this s of
        (Ret printHandler, s1) \<Rightarrow>
          (case moduleFactory this (moduleConfig H this s printHandler) s1 of
             (Ret instance, s2) \<Rightarrow>
               (case patchModule H this instance s2 of
                  (Ret patched, s3) \<Rightarrow>
                    (Ret (Resolved (this\<lparr>moduleInstance := Some patched\<rparr>)), s3)
                | (Throw e, s3) \<Rightarrow> (Ret (Rejected e), s3))
           | (Throw e, s2) \<Rightarrow> (Ret (Rejected e), s2))
      | (Throw e, s1) \<Rightarrow> (Ret (Rejected e), s1))"
  by (simp add: initializeModule_def async_def bind_js_def ret_def split: prod.split res.split)

lemma initialize_eq:
  assumes "ModuleManager_constructor factory component canvas console userOpts s = (Ret manager, s0)"
  shows "ModuleManager_initialize H factory component canvas console userOpts s =
           initializeModule H manager s0"
proof -
  have "async (await (initializeModule H manager)) s0 = initializeModule H manager s0"
    unfolding initializeModule_def by (simp add: async_await_async)
  then show ?thesis
    using assms by (simp add: ModuleManager_initialize_def async_def bind_js_def)
qed

subsection \<open>Option resolution\<close>

text \<open>
  Claim C1. The configuration written at construction maps every key the user record has
  to the caller's value, and every other key to its documented default (no entry for a key
  that is neither supplied nor documented).
\<close>

theorem C1_options_merge:
  "options (snd (Manager_constructor component canvas console userOpts s)) k =
     (case props userOpts k of Some v \<Rightarrow> Some v | None \<Rightarrow> documented_default k)"
  by (simp add: Manager_constructor_def setOptions_def getDefaultOptionsForVersion_eq
      map_add_def defaultOptions_documented split: option.split)

text \<open>At a record that sets \<open>captureTabKey\<close> only: that key is the caller's, another is the default.\<close>

theorem C1_options_merge_witness:
  "options (snd (Manager_constructor (JElem 1) (JElem 2) JNull
       \<lparr>props = [''captureTabKey'' \<mapsto> JBool True], initialModuleObj = emptyInitialModule\<rparr>
       traceStore)) ''captureTabKey'' = Some (JBool True) \<and>
   options (snd (Manager_constructor (JElem 1) (JElem 2) JNull
       \<lparr>props = [''captureTabKey'' \<mapsto> JBool True], initialModuleObj = emptyInitialModule\<rparr>
       traceStore)) ''disposeCanvasOnAbort'' = Some (JBool True)"
  using C1_options_merge [of "JElem 1" "JElem 2" JNull
      "\<lparr>props = [''captureTabKey'' \<mapsto> JBool True], initialModuleObj = emptyInitialModule\<rparr>"
      traceStore "''captureTabKey''"]
    C1_options_merge [of "JElem 1" "JElem 2" JNull
      "\<lparr>props = [''captureTabKey'' \<mapsto> JBool True], initialModuleObj = emptyInitialModule\<rparr>"
      traceStore "''disposeCanvasOnAbort''"]
  by (simp add: documented_default_def)

subsection \<open>The viewport patch\<close>

text \<open>
  Claim C2, as amended. A rendering context that the patched \<open>createContext\<close> creates gets a
  viewport function which calls the underlying one once: with the backing-store width and
  height when the device pixel ratio is not 1 and \<open>floor(w0 * dpr)\<close> equals the backing-store
  width or exceeds it by one and \<open>floor(h0 * dpr)\<close> equals the backing-store height or
  exceeds it by one; with the requested \<open>w0\<close> and \<open>h0\<close> otherwise. \<open>x0\<close> and \<open>y0\<close> always
  pass through.
\<close>

theorem C2_viewport_snap:
  assumes "create args s = (Ret handle, s0)" and "truthy handle"
    and "getContext G handle s0 = (Ret (Some ctx), s1)" and "GLctx ctx = Some gl"
  shows "\<exists>gl'. patchedCreateContext H G create args s = (Ret (handle, Some gl'), s1) \<and>
     gl' = gl\<lparr>viewport := viewport gl'\<rparr> \<and>
     (\<forall>x0 y0 w0 h0 t. viewport gl' x0 y0 w0 h0 t =
        (let dpr = devicePixelRatio H t;
             w = \<lfloor>fmul H w0 dpr\<rfloor>;
             h = \<lfloor>fmul H h0 dpr\<rfloor>;
             snap = (dpr \<noteq> 1
                     \<and> (w = canvas_width gl t \<or> w = canvas_width gl t + 1)
                     \<and> (h = canvas_height gl t \<or> h = canvas_height gl t + 1))
         in dropped (viewport gl x0 y0 (if snap then of_int (canvas_width gl t) else w0)
                                       (if snap then of_int (canvas_height gl t) else h0) t)))"
proof -
  have "patchedCreateContext H G create args s =
          (Ret (handle, Some (gl\<lparr>viewport := patchedViewport H gl (viewport gl)\<rparr>)), s1)"
    using assms by (simp add: patchedCreateContext_def bind_js_def ret_def)
  then show ?thesis
    by (intro exI [of _ "gl\<lparr>viewport := patchedViewport H gl (viewport gl)\<rparr>"])
      (simp add: patchedViewport_eq)
qed

text \<open>
  On a 201 by 100 backing store at a device pixel ratio of 2: a request of 100.5 by 50
  snaps to 201 by 100, a request of 300 by 50 passes through.
\<close>

theorem C2_viewport_snap_witness:
  "\<exists>gl'. patchedCreateContext traceHost traceGL (createContext traceGL) [] traceStore =
           (Ret (JNum 3, Some gl'), traceStore\<lparr>world := [Call ''GL.createContext'' []]\<rparr>) \<and>
     world (snd (viewport gl' 0 0 (201 / 2) 50 traceStore)) =
       [Call ''viewport'' [JNum 0, JNum 0, JNum 201, JNum 100]] \<and>
     world (snd (viewport gl' 0 0 300 50 traceStore)) =
       [Call ''viewport'' [JNum 0, JNum 0, JNum 300, JNum 50]]"
proof -
  let ?s0 = "traceStore\<lparr>world := [Call ''GL.createContext'' []]\<rparr>"
  have a: "createContext traceGL [] traceStore = (Ret (JNum 3), ?s0)"
    by (simp add: trace_defs)
  have b: "truthy (JNum 3)" by simp
  have c: "getContext traceGL (JNum 3) ?s0 = (Ret (Some \<lparr>GLctx = Some traceGlctx\<rparr>), ?s0)"
    by (simp add: traceGL_def ret_def)
  have d: "GLctx \<lparr>GLctx = Some traceGlctx\<rparr> = Some traceGlctx" by simp
  from C2_viewport_snap [where create = "createContext traceGL" and args = "[]"
      and s = traceStore and handle = "JNum 3" and ?s0.0 = ?s0 and G = traceGL
      and ctx = "\<lparr>GLctx = Some traceGlctx\<rparr>" and ?s1.0 = ?s0 and gl = traceGlctx
      and H = traceHost, OF a b c d]
  obtain gl' where
    p: "patchedCreateContext traceHost traceGL (createContext traceGL) [] traceStore =
          (Ret (JNum 3, Some gl'), ?s0)"
    and v: "\<And>x0 y0 w0 h0 t. viewport gl' x0 y0 w0 h0 t =
        (let dpr = devicePixelRatio traceHost t;
             w = \<lfloor>fmul traceHost w0 dpr\<rfloor>;
             h = \<lfloor>fmul traceHost h0 dpr\<rfloor>;
             snap = (dpr \<noteq> 1
                     \<and> (w = canvas_width traceGlctx t \<or> w = canvas_width traceGlctx t + 1)
                     \<and> (h = canvas_height traceGlctx t \<or> h = canvas_height traceGlctx t + 1))
         in dropped (viewport traceGlctx x0 y0
                       (if snap then of_int (canvas_width traceGlctx t) else w0)
                       (if snap then of_int (canvas_height traceGlctx t) else h0) t))"
    by blast
  have "world (snd (viewport gl' 0 0 (201 / 2) 50 traceStore)) =
       [Call ''viewport'' [JNum 0, JNum 0, JNum 201, JNum 100]]"
    by (simp add: v trace_defs dropped_def Let_def)
  moreover have "world (snd (viewport gl' 0 0 300 50 traceStore)) =
       [Call ''viewport'' [JNum 0, JNum 0, JNum 300, JNum 50]]"
    by (simp add: v trace_defs dropped_def Let_def)
  ultimately show ?thesis using p by blast
qed

text \<open>
  The claim as stated fails one pixel below the backing store. At a device pixel ratio of 2
  and a 201 by 100 backing store, a request of 100 by 50 scales to 200 by 100: both within
  one pixel of the backing store, yet the underlying viewport gets 100 by 50, not 201 by 100.
\<close>

theorem C2_counterexample:
  "devicePixelRatio traceHost traceStore \<noteq> 1 \<and>
   within_one_pixel \<lfloor>fmul traceHost 100 (devicePixelRatio traceHost traceStore)\<rfloor>
     (canvas_width traceGlctx traceStore) \<and>
   within_one_pixel \<lfloor>fmul traceHost 50 (devicePixelRatio traceHost traceStore)\<rfloor>
     (canvas_height traceGlctx traceStore) \<and>
   world (snd (patchedViewport traceHost traceGlctx (viewport traceGlctx) 0 0 100 50 traceStore)) =
     [Call ''viewport'' [JNum 0, JNum 0, JNum 100, JNum 50]] \<and>
   world (snd (patchedViewport traceHost traceGlctx (viewport traceGlctx) 0 0 100 50 traceStore)) \<noteq>
     [Call ''viewport'' [JNum 0, JNum 0, JNum 201, JNum 100]]"
  by (simp add: trace_defs patchedViewport_def within_one_pixel_def Let_def bind_js_def ret_def)

subsection \<open>The abstract-method guard\<close>

text \<open>
  Claim C3, as amended. The base class has ten contract methods, and every one of them
  raises an unimplemented-method error when invoked without being overridden, whatever the
  arguments: the six synchronous ones throw it, the four \<open>async\<close> ones return a promise
  rejected with it.
\<close>

theorem C3_unimplemented_methods:
  "length contract_methods = 10 \<and> distinct contract_methods \<and>
   (\<forall>m. m \<in> set contract_methods) \<and>
   (\<forall>m args s. \<exists>msg. unimplemented_error (JError msg) \<and>
      Manager_invoke m args s =
        (if is_async m then RejectedWith (JError msg) else Thrown (JError msg)))"
proof -
  have "\<And>m. m \<in> set contract_methods"
  proof -
    fix m show "m \<in> set contract_methods" by (cases m) (simp_all add: contract_methods_def)
  qed
  moreover have "length contract_methods = 10" "distinct contract_methods"
    by (simp_all add: contract_methods_def)
  ultimately show ?thesis using Manager_invoke_outcome by blast
qed

theorem C3_unimplemented_methods_witness:
  "length contract_methods = 10 \<and> M_patchModule \<in> set contract_methods"
  using C3_unimplemented_methods by blast

text \<open>Four different methods raise the error, so the methods that do are not exactly three.\<close>

theorem C3_counterexample:
  "distinct [M_callMain, M_abort, M_pauseMainLoop, M_resumeMainLoop] \<and>
   raises_unimplemented (Manager_invoke M_callMain [] ()) \<and>
   raises_unimplemented (Manager_invoke M_abort [] ()) \<and>
   raises_unimplemented (Manager_invoke M_pauseMainLoop [] ()) \<and>
   raises_unimplemented (Manager_invoke M_resumeMainLoop [] ())"
  by (simp add: sync_outcome_def throw_def startsWith_def endsWith_def
      Manager_callMain_def Manager_abort_def Manager_pauseMainLoop_def Manager_resumeMainLoop_def)

subsection \<open>The public operations\<close>

text \<open>
  Claim C4, as amended. With a module instance present, \<open>callMain\<close>, \<open>pauseMainLoop\<close> and
  \<open>resumeMainLoop\<close> each make one call of the wrapped module's entry point of the same
  name (\<open>callMain\<close> with its first argument, the other two with none) and settle with
  \<open>undefined\<close> or with what the entry point threw; \<open>abort\<close> makes one call of the
  module's \<open>abort\<close> with its first argument, or with the default message when that is
  \<open>undefined\<close>, and fulfils whatever the call did. \<open>requestFullscreen\<close> calls the
  method of that name on the canvas element, not on the module, and settles with the
  awaited result. \<open>onResizeCanvas\<close> does nothing unless \<open>resizeCanvasOnElementSizing\<close>
  is set; when it is, it builds a synthetic \<open>resize\<close> event whose related target is the
  \<open>target\<close> of its first argument and dispatches it on the window. \<open>initialize\<close>
  constructs the manager, calls the module factory once on the adapter's configuration
  object, patches the module it returns and fulfils with the manager; a failure of any of
  these steps rejects.
\<close>

theorem C4_forwarding:
  "(\<forall>m. moduleInstance this = Some m \<longrightarrow>
      ModuleManager_callMain this args s = forwarded (callMain m (arg 0 args) s) \<and>
      ModuleManager_pauseMainLoop this args s = forwarded (pauseMainLoop m s) \<and>
      ModuleManager_resumeMainLoop this args s = forwarded (resumeMainLoop m s) \<and>
      ModuleManager_abort this args s =
        (Ret (Resolved JUndefined),
         snd (abort m (if arg 0 args = JUndefined then JStr ''Aborted by JS component.''
                       else arg 0 args) s))) \<and>
   ModuleManager_requestFullscreen H this args s =
     settled (case invoke H (canvasElement this) ''requestFullscreen'' [] s of
                (Ret p, s1) \<Rightarrow> awaitValue H p s1
              | (Throw e, s1) \<Rightarrow> (Throw e, s1)) \<and>
   ModuleManager_onResizeCanvas H this args s =
     (if option_set ''resizeCanvasOnElementSizing'' s
      then (case getProperty H (arg 0 args) ''target'' s of
              (Ret t, s1) \<Rightarrow>
                (case newFocusEvent H ''resize'' t s1 of
                   (Ret event, s2) \<Rightarrow> dropped (dispatchEvent H event s2)
                 | (Throw e, s2) \<Rightarrow> (Throw e, s2))
            | (Throw e, s1) \<Rightarrow> (Throw e, s1))
      else (Ret JUndefined, s)) \<and>
   ModuleManager_initialize H factory component canvas console userOpts s =
     (case ModuleManager_constructor factory component canvas console userOpts s of
        (Ret manager, s0) \<Rightarrow>
          (case getPrintHandler H manager s0 of
             (Ret printHandler, s1) \<Rightarrow>
               (case factory (moduleConfig H manager s0 printHandler) s1 of
                  (Ret instance, s2) \<Rightarrow>
                    (case patchModule H manager instance s2 of
                       (Ret patched, s3) \<Rightarrow>
                         (Ret (Resolved (manager\<lparr>moduleInstance := Some patched\<rparr>)), s3)
                     | (Throw e, s3) \<Rightarrow> (Ret (Rejected e), s3))
                | (Throw e, s2) \<Rightarrow> (Ret (Rejected e), s2))
           | (Throw e, s1) \<Rightarrow> (Ret (Rejected e), s1))
      | (Throw e, s0) \<Rightarrow> (Ret (Rejected e), s0))"
proof -
  have 1: "\<And>m. moduleInstance this = Some m \<Longrightarrow>
      ModuleManager_callMain this args s = forwarded (callMain m (arg 0 args) s)"
    by (simp add: ModuleManager_callMain_def async_bind_drop)
  have 2: "\<And>m. moduleInstance this = Some m \<Longrightarrow>
      ModuleManager_pauseMainLoop this args s = forwarded (pauseMainLoop m s)"
    by (simp add: ModuleManager_pauseMainLoop_def async_bind_drop)
  have 3: "\<And>m. moduleInstance this = Some m \<Longrightarrow>
      ModuleManager_resumeMainLoop this args s = forwarded (resumeMainLoop m s)"
    by (simp add: ModuleManager_resumeMainLoop_def async_bind_drop)
  have 4: "\<And>m. moduleInstance this = Some m \<Longrightarrow>
      ModuleManager_abort this args s =
        (Ret (Resolved JUndefined),
         snd (abort m (if arg 0 args = JUndefined then JStr ''Aborted by JS component.''
                       else arg 0 args) s))"
    by (simp add: ModuleManager_abort_def Let_def abort_swallow)
  have 5: "ModuleManager_requestFullscreen H this args s =
     settled (case invoke H (canvasElement this) ''requestFullscreen'' [] s of
                (Ret p, s1) \<Rightarrow> awaitValue H p s1
              | (Throw e, s1) \<Rightarrow> (Throw e, s1))"
    by (simp add: ModuleManager_requestFullscreen_def async_settled bind_js_def)
  have 7: "ModuleManager_onResizeCanvas H this args s =
     (if option_set ''resizeCanvasOnElementSizing'' s
      then (case getProperty H (arg 0 args) ''target'' s of
              (Ret t, s1) \<Rightarrow>
                (case newFocusEvent H ''resize'' t s1 of
                   (Ret event, s2) \<Rightarrow> dropped (dispatchEvent H event s2)
                 | (Throw e, s2) \<Rightarrow> (Throw e, s2))
            | (Throw e, s1) \<Rightarrow> (Throw e, s1))
      else (Ret JUndefined, s))"
    by (simp add: ModuleManager_onResizeCanvas_def handleResizeCanvas_def bind_js_def ret_def
        dropped_def split: prod.split res.split)
  have 8: "ModuleManager_initialize H factory component canvas console userOpts s =
     (case ModuleManager_constructor factory component canvas console userOpts s of
        (Ret manager, s0) \<Rightarrow>
          (case getPrintHandler H manager s0 of
             (Ret printHandler, s1) \<Rightarrow>
               (case factory (moduleConfig H manager s0 printHandler) s1 of
                  (Ret instance, s2) \<Rightarrow>
                    (case patchModule H manager instance s2 of
                       (Ret patched, s3) \<Rightarrow>
                         (Ret (Resolved (manager\<lparr>moduleInstance := Some patched\<rparr>)), s3)
                     | (Throw e, s3) \<Rightarrow> (Ret (Rejected e), s3))
                | (Throw e, s2) \<Rightarrow> (Ret (Rejected e), s2))
           | (Throw e, s1) \<Rightarrow> (Ret (Rejected e), s1))
      | (Throw e, s0) \<Rightarrow> (Ret (Rejected e), s0))"
  proof -
    obtain manager where c:
      "ModuleManager_constructor factory component canvas console userOpts s =
         (Ret manager, setOptions (props userOpts) s)"
      and f: "moduleFactory manager = factory"
      using constructor_result [of factory component canvas console userOpts s] by blast
    show ?thesis
      unfolding initialize_eq [OF c] c initializeModule_eq f by simp
  qed
  from 1 2 3 4 5 7 8 show ?thesis by blast
qed

text \<open>
  On the recording module: \<open>callMain\<close> passes its first argument on, \<open>abort\<close> passes the
  default message on and fulfils although the module's \<open>abort\<close> threw.
\<close>

theorem C4_forwarding_witness:
  "moduleInstance traceManager = Some traceModule \<and>
   ModuleManager_callMain traceManager [JStr ''a'', JStr ''b''] traceStore =
     (Ret (Resolved JUndefined), traceStore\<lparr>world := [Call ''Module.callMain'' [JStr ''a'']]\<rparr>) \<and>
   ModuleManager_abort traceManager [] traceStore =
     (Ret (Resolved JUndefined),
      traceStore\<lparr>world := [Call ''Module.abort'' [JStr ''Aborted by JS component.'']]\<rparr>)"
proof -
  have m: "moduleInstance traceManager = Some traceModule"
    by (simp add: traceManager_def)
  from C4_forwarding [of traceManager "[JStr ''a'', JStr ''b'']" traceStore] m
  have "ModuleManager_callMain traceManager [JStr ''a'', JStr ''b''] traceStore =
          forwarded (callMain traceModule (arg 0 [JStr ''a'', JStr ''b'']) traceStore)"
    by blast
  then have 1: "ModuleManager_callMain traceManager [JStr ''a'', JStr ''b''] traceStore =
     (Ret (Resolved JUndefined), traceStore\<lparr>world := [Call ''Module.callMain'' [JStr ''a'']]\<rparr>)"
    by (simp add: forwarded_def arg_def traceModule_def logged_def traceStore_def)
  from C4_forwarding [of traceManager "[]" traceStore] m
  have "ModuleManager_abort traceManager [] traceStore =
        (Ret (Resolved JUndefined),
         snd (abort traceModule (if arg 0 [] = JUndefined then JStr ''Aborted by JS component.''
                       else arg 0 []) traceStore))"
    by blast
  then have 2: "ModuleManager_abort traceManager [] traceStore =
     (Ret (Resolved JUndefined),
      traceStore\<lparr>world := [Call ''Module.abort'' [JStr ''Aborted by JS component.'']]\<rparr>)"
    by (simp add: arg_def traceModule_def failing_def traceStore_def)
  from m 1 2 show ?thesis by blast
qed

text \<open>
  The claim as stated fails for two of the operations. On a manager that has no module
  instance at all \<open>requestFullscreen\<close> is fulfilled, its one call being made on the canvas
  element. With a recording module present, \<open>onResizeCanvas\<close> makes one call, of
  \<open>window.dispatchEvent\<close>, and none of the module; with \<open>resizeCanvasOnElementSizing\<close>
  unset it makes no call at all.
\<close>

theorem C4_counterexample:
  "moduleInstance bareManager = None \<and>
   ModuleManager_requestFullscreen traceHost bareManager [] traceStore =
     (Ret (Resolved JUndefined), traceStore\<lparr>world := [Call ''requestFullscreen'' [JElem 2]]\<rparr>) \<and>
   ModuleManager_onResizeCanvas traceHost traceManager [JObj 7] traceStore =
     (Ret JUndefined, traceStore\<lparr>world := [Call ''window.dispatchEvent'' [JElem 2]]\<rparr>) \<and>
   ModuleManager_onResizeCanvas traceHost traceManager [JObj 7]
       (traceStore\<lparr>options := defaultOptions(''resizeCanvasOnElementSizing'' \<mapsto> JBool False)\<rparr>) =
     (Ret JUndefined,
      traceStore\<lparr>options := defaultOptions(''resizeCanvasOnElementSizing'' \<mapsto> JBool False)\<rparr>)"
  by (simp add: ModuleManager_requestFullscreen_def ModuleManager_onResizeCanvas_def
      handleResizeCanvas_def option_defs trace_defs arg_def async_def bind_js_def ret_def)

subsection \<open>Abort\<close>

text \<open>
  Claim C5. \<open>ModuleManager.abort\<close> returns normally, with a promise fulfilled with
  \<open>undefined\<close>: for every argument list, whether or not there is a module instance, and
  whatever the module's \<open>abort\<close> does, throwing included.
\<close>

theorem C5_abort_never_throws:
  "fst (ModuleManager_abort this args s) = Ret (Resolved JUndefined)"
  by (simp add: ModuleManager_abort_def Let_def async_def try_catch_def noInstance_def throw_def
      bind_js_def ret_def split: option.split prod.split res.split)

text \<open>With a module whose \<open>abort\<close> throws, and with no module instance.\<close>

theorem C5_abort_never_throws_witness:
  "fst (abort traceModule (JStr ''stop'') traceStore) = Throw (JError ''RuntimeError'') \<and>
   fst (ModuleManager_abort traceManager [JStr ''stop''] traceStore) = Ret (Resolved JUndefined) \<and>
   moduleInstance bareManager = None \<and>
   fst (ModuleManager_abort bareManager [JStr ''stop''] traceStore) = Ret (Resolved JUndefined)"
  using C5_abort_never_throws [of traceManager "[JStr ''stop'']" traceStore]
    C5_abort_never_throws [of bareManager "[JStr ''stop'']" traceStore]
  by (simp add: traceModule_def failing_def bareManager_def)

text \<open>
  Claim C6. \<open>__disposeGlContexts\<close> never throws, whatever the contexts table holds, and its
  loop body is started on every key of the table in order, each time from the store the
  previous key's body left, whether that body finished or failed on the way.
\<close>

theorem C6_dispose_visits_all:
  "disposeGlContexts m s =
     (Ret JUndefined,
      case GL m of
        None \<Rightarrow> s
      | Some G \<Rightarrow> fold (\<lambda>key t. snd (disposeOne G key t)) (map fst (contexts G s)) s)"
proof (cases "GL m")
  case None
  then show ?thesis by (simp add: disposeGlContexts_def ret_def)
next
  case (Some G)
  then show ?thesis by (simp add: disposeGlContexts_def forEach_try_catch)
qed

text \<open>
  A table with a stale \<open>null\<close> entry, then a context whose \<open>getExtension\<close> throws, then a
  live one: the live context is still released and deleted.
\<close>

theorem C6_dispose_visits_all_witness:
  "map fst (contexts traceGL traceStore) = [''1'', ''2'', ''3''] \<and>
   fst (disposeOne traceGL ''1'' traceStore) = Throw (JTypeError ''GL.contexts[key] is null'') \<and>
   fst (disposeOne traceGL ''2'' traceStore) = Throw (JError ''context lost'') \<and>
   disposeGlContexts traceModule traceStore =
     (Ret JUndefined,
      traceStore\<lparr>world := [Call ''getExtension (lost)'' [JStr ''WEBGL_lose_context''],
                           Call ''getExtension'' [JStr ''WEBGL_lose_context''],
                           Call ''loseContext'' [],
                           Call ''GL.deleteContext'' [JStr ''3'']]\<rparr>)"
proof -
  have "disposeGlContexts traceModule traceStore =
     (Ret JUndefined,
      traceStore\<lparr>world := [Call ''getExtension (lost)'' [JStr ''WEBGL_lose_context''],
                           Call ''getExtension'' [JStr ''WEBGL_lose_context''],
                           Call ''loseContext'' [],
                           Call ''GL.deleteContext'' [JStr ''3'']]\<rparr>)"
    using C6_dispose_visits_all [of traceModule traceStore]
    by (simp add: disposeOne_def trace_defs bind_js_def ret_def)
  then show ?thesis
    by (simp add: disposeOne_def trace_defs bind_js_def ret_def)
qed

subsection \<open>Event handler patches\<close>

text \<open>
  Claim C7. For a resize handler the module registers on the window, the handler that is
  registered in its place runs the original handler, on the same event, exactly when
  \<open>resizeCanvasOnElementSizing\<close> is unset or the event's related target is the canvas
  element; otherwise it goes straight to the canvas fix-ups, which do not involve the
  original handler. In particular, with the toggle set and a canvas that is an element, an
  ordinary resize of the window (no related target) never reaches the original handler.
\<close>

theorem C7_resize_filter:
  assumes "resize_kind eh"
  shows "\<exists>r eh'. patchEventHandler H this eh s = (Ret (r, eh'), s) \<and>
     (\<forall>evt t. handlerFunc eh' evt t =
        (if option_set ''resizeCanvasOnElementSizing'' t
            \<and> \<not> strict_eq (relatedTarget evt) (canvasElement this)
         then resizeFixups H this t
         else case handlerFunc eh evt t of
                (Ret v, t') \<Rightarrow> resizeFixups H this t'
              | (Throw e, t') \<Rightarrow> (Throw e, t'))) \<and>
     (\<forall>c evt t. canvasElement this = JElem c \<and> relatedTarget evt = JUndefined
         \<and> option_set ''resizeCanvasOnElementSizing'' t
        \<longrightarrow> handlerFunc eh' evt t = resizeFixups H this t)"
  by (intro exI [of _ "JBool True"]
      exI [of _ "eh\<lparr>handlerFunc := resizeHandlerWrapper H this (handlerFunc eh)\<rparr>"])
    (simp add: patchEventHandler_resize [OF assms] resizeHandlerWrapper_eq)

text \<open>
  With the default options: a window resize only adjusts the viewport, the synthetic event
  for the canvas element runs the original handler first.
\<close>

theorem C7_resize_filter_witness:
  "resize_kind resizeHandler \<and>
   option_set ''resizeCanvasOnElementSizing'' traceStore \<and>
   canvasElement traceManager = JElem 2 \<and> relatedTarget windowResizeEvent = JUndefined \<and>
   (\<exists>r eh'. patchEventHandler traceHost traceManager resizeHandler traceStore =
              (Ret (r, eh'), traceStore) \<and>
      world (snd (handlerFunc eh' windowResizeEvent traceStore)) =
        [Call ''viewport'' [JNum 0, JNum 0, JNum 201, JNum 100]] \<and>
      world (snd (handlerFunc eh' (elementResizeEvent (JElem 2)) traceStore)) =
        [Call ''handlerFunc'' [JUndefined, JElem 2],
         Call ''viewport'' [JNum 0, JNum 0, JNum 201, JNum 100]])"
proof -
  have k: "resize_kind resizeHandler"
    by (simp add: resize_kind_def resizeHandler_def)
  have n: "option_set ''resizeCanvasOnElementSizing'' traceStore"
    by (simp add: option_set_def traceStore_def defaultOptions_def obj_get_def)
  have c: "canvasElement traceManager = JElem 2" "relatedTarget windowResizeEvent = JUndefined"
    by (simp_all add: traceManager_def windowResizeEvent_def)
  have f: "resizeFixups traceHost traceManager traceStore =
             (Ret JUndefined,
              traceStore\<lparr>world := [Call ''viewport'' [JNum 0, JNum 0, JNum 201, JNum 100]]\<rparr>)"
    by (simp add: resizeFixups_def fixCanvasViewport_def option_set_def obj_get_def
        defaultOptions_def trace_defs bind_js_def ret_def)
  from C7_resize_filter [OF k, of traceHost traceManager traceStore]
  obtain r eh' where
    p: "patchEventHandler traceHost traceManager resizeHandler traceStore =
          (Ret (r, eh'), traceStore)"
    and w: "\<And>evt t. handlerFunc eh' evt t =
        (if option_set ''resizeCanvasOnElementSizing'' t
            \<and> \<not> strict_eq (relatedTarget evt) (canvasElement traceManager)
         then resizeFixups traceHost traceManager t
         else case handlerFunc resizeHandler evt t of
                (Ret v, t') \<Rightarrow> resizeFixups traceHost traceManager t'
              | (Throw e, t') \<Rightarrow> (Throw e, t'))"
    and o: "\<And>c evt t. canvasElement traceManager = JElem c \<and> relatedTarget evt = JUndefined
         \<and> option_set ''resizeCanvasOnElementSizing'' t
        \<Longrightarrow> handlerFunc eh' evt t = resizeFixups traceHost traceManager t"
    by blast
  have "world (snd (handlerFunc eh' windowResizeEvent traceStore)) =
        [Call ''viewport'' [JNum 0, JNum 0, JNum 201, JNum 100]]"
    using o [of 2 windowResizeEvent traceStore] c n by (simp add: f)
  moreover have "world (snd (handlerFunc eh' (elementResizeEvent (JElem 2)) traceStore)) =
        [Call ''handlerFunc'' [JUndefined, JElem 2],
         Call ''viewport'' [JNum 0, JNum 0, JNum 201, JNum 100]]"
    by (simp add: w n c elementResizeEvent_def resizeHandler_def traceHandlerFunc_def logged_def
        resizeFixups_def fixCanvasViewport_def option_set_def obj_get_def
        defaultOptions_def traceStore_def traceHost_def traceGlctx_def traceManager_def
        bind_js_def ret_def)
  ultimately show ?thesis using k n c p by blast
qed

text \<open>
  Claim C8. For a key handler the module registers on the window: when \<open>captureTabKey\<close>
  is not set, the handler function registered in its place does nothing on an event with
  key code 9 and runs the original handler function on the same event for any other key
  code; when \<open>captureTabKey\<close> is set, the handler function is the original one.
\<close>

theorem C8_tab_key:
  assumes "key_kind eh"
  shows "\<exists>r eh'. patchEventHandler H this eh s = (Ret (r, eh'), s) \<and>
     (\<not> option_set ''captureTabKey'' s \<longrightarrow>
        (\<forall>evt t. handlerFunc eh' evt t =
           (if keyCode evt = JNum 9 then (Ret JUndefined, t)
            else dropped (handlerFunc eh evt t)))) \<and>
     (option_set ''captureTabKey'' s \<longrightarrow> handlerFunc eh' = handlerFunc eh)"
proof -
  let ?eh' = "eh\<lparr>target := (if option_set ''captureFocusOnComponent'' s
                                then componentElement this else target eh),
                    handlerFunc := (if \<not> option_set ''captureTabKey'' s
                                    then keyHandlerWrapper (handlerFunc eh) else handlerFunc eh)\<rparr>"
  have "patchEventHandler H this eh s = (Ret (JBool True, ?eh'), s)"
    using patchEventHandler_key [OF assms] .
  moreover have "\<And>evt t. keyHandlerWrapper (handlerFunc eh) evt t =
           (if keyCode evt = JNum 9 then (Ret JUndefined, t)
            else dropped (handlerFunc eh evt t))"
    by (simp add: keyHandlerWrapper_def dropped_def bind_js_def ret_def)
  ultimately show ?thesis by (intro exI [of _ "JBool True"] exI [of _ ?eh']) simp
qed

text \<open>
  With the default options (TAB not captured) and with \<open>captureTabKey\<close> set: TAB reaches the
  original handler only in the second case.
\<close>

theorem C8_tab_key_witness:
  "key_kind keydownHandler \<and> \<not> option_set ''captureTabKey'' traceStore \<and>
   (\<exists>r eh'. patchEventHandler traceHost traceManager keydownHandler traceStore =
              (Ret (r, eh'), traceStore) \<and>
      world (snd (handlerFunc eh' (keyEvent 9) traceStore)) = [] \<and>
      world (snd (handlerFunc eh' (keyEvent 65) traceStore)) =
        [Call ''handlerFunc'' [JNum 65, JUndefined]]) \<and>
   option_set ''captureTabKey'' (traceStore\<lparr>options := [''captureTabKey'' \<mapsto> JBool True]\<rparr>) \<and>
   (\<exists>r eh'. patchEventHandler traceHost traceManager keydownHandler
               (traceStore\<lparr>options := [''captureTabKey'' \<mapsto> JBool True]\<rparr>) =
              (Ret (r, eh'), traceStore\<lparr>options := [''captureTabKey'' \<mapsto> JBool True]\<rparr>) \<and>
      handlerFunc eh' = traceHandlerFunc)"
proof -
  let ?t = "traceStore\<lparr>options := [''captureTabKey'' \<mapsto> JBool True]\<rparr>"
  have k: "key_kind keydownHandler"
    by (simp add: key_kind_def keydownHandler_def startsWith_def)
  have n: "\<not> option_set ''captureTabKey'' traceStore"
    by (simp add: option_set_def traceStore_def defaultOptions_def obj_get_def)
  have y: "option_set ''captureTabKey'' ?t"
    by (simp add: option_set_def obj_get_def)
  from C8_tab_key [OF k, of traceHost traceManager traceStore] n
  obtain r eh' where
    p: "patchEventHandler traceHost traceManager keydownHandler traceStore =
          (Ret (r, eh'), traceStore)"
    and w: "\<And>evt t. handlerFunc eh' evt t =
           (if keyCode evt = JNum 9 then (Ret JUndefined, t)
            else dropped (handlerFunc keydownHandler evt t))"
    by blast
  have "world (snd (handlerFunc eh' (keyEvent 9) traceStore)) = []"
    by (simp add: w keyEvent_def traceStore_def)
  moreover have "world (snd (handlerFunc eh' (keyEvent 65) traceStore)) =
        [Call ''handlerFunc'' [JNum 65, JUndefined]]"
    by (simp add: w trace_defs dropped_def)
  ultimately have 1: "\<exists>r eh'. patchEventHandler traceHost traceManager keydownHandler traceStore =
              (Ret (r, eh'), traceStore) \<and>
      world (snd (handlerFunc eh' (keyEvent 9) traceStore)) = [] \<and>
      world (snd (handlerFunc eh' (keyEvent 65) traceStore)) =
        [Call ''handlerFunc'' [JNum 65, JUndefined]]"
    using p by blast
  from C8_tab_key [OF k, of traceHost traceManager ?t] y
  have 2: "\<exists>r eh'. patchEventHandler traceHost traceManager keydownHandler ?t =
              (Ret (r, eh'), ?t) \<and> handlerFunc eh' = traceHandlerFunc"
    by (simp add: keydownHandler_def)
  from k n y 1 2 show ?thesis by blast
qed

text \<open>
  Claim C10. The patched \<open>registerOrRemoveHandler\<close> behaves as one call of the original
  registration function on the event handler as the three patches leave it, whatever the
  handler is; the patches themselves leave the store alone; and a handler of none of the
  three kinds reaches the original registration as it came.
\<close>

theorem C10_register_once:
  "\<exists>r eh'. patchEventHandler H this eh s = (Ret (r, eh'), s) \<and>
      patchedRegisterOrRemoveHandler H this predefinedFunction eh s =
        dropped (predefinedFunction eh' s) \<and>
      (\<not> key_kind eh \<and> \<not> resize_kind eh \<and> \<not> fullscreenchange_kind eh \<longrightarrow> eh' = eh)"
proof -
  obtain r eh' where p: "patchEventHandler H this eh s = (Ret (r, eh'), s)"
    and u: "\<not> key_kind eh \<and> \<not> resize_kind eh \<and> \<not> fullscreenchange_kind eh \<longrightarrow> eh' = eh"
    using patchEventHandler_result [of H this eh s] by blast
  have "patchedRegisterOrRemoveHandler H this predefinedFunction eh s =
          dropped (predefinedFunction eh' s)"
    by (simp add: patchedRegisterOrRemoveHandler_def bind_js_def p ret_def dropped_def)
  with p u show ?thesis by blast
qed

text \<open>
  A \<open>mousedown\<close> handler on the canvas is of none of the three kinds: the recording module
  sees one registration, of the handler unchanged.
\<close>

theorem C10_register_once_witness:
  "\<not> key_kind mousedownHandler \<and> \<not> resize_kind mousedownHandler \<and>
   \<not> fullscreenchange_kind mousedownHandler \<and>
   patchEventHandler traceHost traceManager mousedownHandler traceStore =
     (Ret (JBool False, mousedownHandler), traceStore) \<and>
   patchedRegisterOrRemoveHandler traceHost traceManager
       (\<lambda>eh. logged (Call ''JSEvents.registerOrRemoveHandler''
                       [target eh, JStr (eventTypeString eh)]) JUndefined)
       mousedownHandler traceStore =
     (Ret JUndefined,
      traceStore\<lparr>world := [Call ''JSEvents.registerOrRemoveHandler''
                             [JElem 2, JStr ''mousedown'']]\<rparr>)"
proof -
  let ?reg = "\<lambda>eh. logged (Call ''JSEvents.registerOrRemoveHandler''
                       [target eh, JStr (eventTypeString eh)]) JUndefined"
  have k: "\<not> key_kind mousedownHandler \<and> \<not> resize_kind mousedownHandler \<and>
           \<not> fullscreenchange_kind mousedownHandler"
    by (simp add: key_kind_def resize_kind_def fullscreenchange_kind_def mousedownHandler_def)
  from C10_register_once [of traceHost traceManager mousedownHandler traceStore ?reg] k
  obtain r where
    p: "patchEventHandler traceHost traceManager mousedownHandler traceStore =
          (Ret (r, mousedownHandler), traceStore)"
    and q: "patchedRegisterOrRemoveHandler traceHost traceManager ?reg mousedownHandler traceStore =
          dropped (?reg mousedownHandler traceStore)"
    by auto
  have "r = JBool False"
    using p
    by (simp add: patchEventHandler_def patchKeyEventHandler_def patchResizeEventHandler_def
        patchFullscreenchangedEventHandler_def mousedownHandler_def option_defs traceStore_def
        bind_js_def ret_def)
  moreover have "dropped (?reg mousedownHandler traceStore) =
     (Ret JUndefined,
      traceStore\<lparr>world := [Call ''JSEvents.registerOrRemoveHandler''
                             [JElem 2, JStr ''mousedown'']]\<rparr>)"
    by (simp add: dropped_def logged_def mousedownHandler_def traceStore_def)
  ultimately show ?thesis using k p q by simp
qed

subsection \<open>The options record after construction\<close>

lemma keepsD: "keeps m \<Longrightarrow> m s = (r, s') \<Longrightarrow> options s' = options s"
  by (auto simp: keeps_def dest: spec [of _ s])

lemma keeps_ret: "keeps (ret v)"
  by (simp add: keeps_def ret_def)

lemma keeps_throw: "keeps (throw e)"
  by (simp add: keeps_def throw_def)

lemma keeps_noInstance: "keeps noInstance"
  by (simp add: noInstance_def keeps_throw)

lemma keeps_bind:
  assumes "keeps m" and "\<And>v s. fst (m s) = Ret v \<Longrightarrow> keeps (f v)"
  shows "keeps (bind_js m f)"
  unfolding keeps_def
proof
  fix s
  obtain r s' where ms: "m s = (r, s')" by (cases "m s")
  have o: "options s' = options s" using keepsD [OF assms(1) ms] .
  show "options (snd (bind_js m f s)) = options s"
  proof (cases r)
    case (Ret v)
    then have "keeps (f v)" using assms(2) [of s v] ms by simp
    then have "options (snd (f v s')) = options s'" by (simp add: keeps_def)
    then show ?thesis using ms Ret o by (simp add: bind_js_def)
  next
    case (Throw e)
    then show ?thesis using ms o by (simp add: bind_js_def)
  qed
qed

lemma keeps_bind_returns:
  assumes "keeps m" and "returns m Q" and "\<And>v. Q v \<Longrightarrow> keeps (f v)"
  shows "keeps (bind_js m f)"
  using assms by (intro keeps_bind) (auto simp: returns_def)

lemma keeps_seq:
  assumes "keeps m" and "\<And>v. keeps (f v)"
  shows "keeps (bind_js m f)"
  using assms by (intro keeps_bind)

lemma keeps_try_catch:
  assumes "keeps m" and "\<And>e. keeps (h e)"
  shows "keeps (try_catch m h)"
  unfolding keeps_def
proof
  fix s
  obtain r s' where ms: "m s = (r, s')" by (cases "m s")
  have o: "options s' = options s" using keepsD [OF assms(1) ms] .
  show "options (snd (try_catch m h s)) = options s"
  proof (cases r)
    case (Ret v)
    then show ?thesis using ms o by (simp add: try_catch_def)
  next
    case (Throw e)
    have "options (snd (h e s')) = options s'" using assms(2) [of e] by (simp add: keeps_def)
    then show ?thesis using ms Throw o by (simp add: try_catch_def)
  qed
qed

lemma keeps_async: "keeps m \<Longrightarrow> keeps (async m)"
  by (auto simp: keeps_def async_def split: prod.split res.split dest: spec)
    (metis snd_conv)+

lemma keeps_if: "keeps a \<Longrightarrow> keeps b \<Longrightarrow> keeps (\<lambda>s. if c s then a s else b s)"
  by (simp add: keeps_def)

lemma keeps_pure: "keeps (\<lambda>s. (r s, s))"
  by (simp add: keeps_def)

lemma keeps_forEach: "(\<And>x. keeps (f x)) \<Longrightarrow> keeps (forEach xs f)"
  by (induction xs) (auto intro: keeps_ret keeps_seq)


lemma keeps_snd: "keeps m \<Longrightarrow> options (snd (m s)) = options s"
  by (simp add: keeps_def)

lemma keeps_drop: "keeps m \<Longrightarrow> keeps (bind_js m (\<lambda>_. ret JUndefined))"
  by (intro keeps_seq keeps_ret)

lemma manager_ok_instance: "manager_ok this \<Longrightarrow> moduleInstance this = Some m \<Longrightarrow> module_ok m"
  by (simp add: manager_ok_def)

lemma keeps_callMain:
  assumes "manager_ok this"
  shows "keeps (ModuleManager_callMain this args)"
proof (cases "moduleInstance this")
  case None
  then show ?thesis by (simp add: ModuleManager_callMain_def keeps_async keeps_noInstance)
next
  case (Some m)
  then have "keeps (callMain m (arg 0 args))"
    using manager_ok_instance [OF assms] by (simp add: module_ok_def)
  then show ?thesis using Some by (simp add: ModuleManager_callMain_def keeps_async keeps_drop)
qed

lemma keeps_abort:
  assumes "manager_ok this"
  shows "keeps (ModuleManager_abort this args)"
proof (cases "moduleInstance this")
  case None
  then show ?thesis
    by (simp add: ModuleManager_abort_def Let_def keeps_async keeps_try_catch keeps_noInstance
        keeps_ret)
next
  case (Some m)
  then have "\<And>a. keeps (abort m a)"
    using manager_ok_instance [OF assms] by (simp add: module_ok_def)
  then show ?thesis using Some
    by (simp add: ModuleManager_abort_def Let_def keeps_async keeps_try_catch keeps_drop keeps_ret)
qed

lemma keeps_pauseMainLoop:
  assumes "manager_ok this"
  shows "keeps (ModuleManager_pauseMainLoop this args)"
proof (cases "moduleInstance this")
  case None
  then show ?thesis by (simp add: ModuleManager_pauseMainLoop_def keeps_async keeps_noInstance)
next
  case (Some m)
  then have "keeps (pauseMainLoop m)"
    using manager_ok_instance [OF assms] by (simp add: module_ok_def)
  then show ?thesis using Some
    by (simp add: ModuleManager_pauseMainLoop_def keeps_async keeps_drop)
qed

lemma keeps_resumeMainLoop:
  assumes "manager_ok this"
  shows "keeps (ModuleManager_resumeMainLoop this args)"
proof (cases "moduleInstance this")
  case None
  then show ?thesis by (simp add: ModuleManager_resumeMainLoop_def keeps_async keeps_noInstance)
next
  case (Some m)
  then have "keeps (resumeMainLoop m)"
    using manager_ok_instance [OF assms] by (simp add: module_ok_def)
  then show ?thesis using Some
    by (simp add: ModuleManager_resumeMainLoop_def keeps_async keeps_drop)
qed

lemma keeps_requestFullscreen:
  assumes "host_ok H"
  shows "keeps (ModuleManager_requestFullscreen H this args)"
  using assms
  by (simp add: ModuleManager_requestFullscreen_def host_ok_def keeps_async keeps_seq)

lemma keeps_exitFullscreen:
  assumes "host_ok H"
  shows "keeps (ModuleManager_exitFullscreen H this args)"
  using assms
  by (simp add: ModuleManager_exitFullscreen_def host_ok_def keeps_async keeps_seq)

lemma keeps_handleResizeCanvas:
  assumes "host_ok H"
  shows "keeps (handleResizeCanvas H resizeEntry)"
  using assms
  by (simp add: handleResizeCanvas_def host_ok_def keeps_seq keeps_ret)

lemma keeps_onResizeCanvas:
  assumes "host_ok H"
  shows "keeps (ModuleManager_onResizeCanvas H this args)"
  using keeps_handleResizeCanvas [OF assms]
  by (simp add: ModuleManager_onResizeCanvas_def keeps_def)

lemma keeps_fixCanvasSizing:
  assumes "host_ok H"
  shows "keeps (fixCanvasSizing H this)"
proof -
  have "keeps (\<lambda>s. bind_js (setWidth H el (fmul H a (devicePixelRatio H s))) (\<lambda>_.
           bind_js (setHeight H el (fmul H b (devicePixelRatio H s))) (\<lambda>_.
           ret JUndefined)) s)" for el a b
    unfolding keeps_def
  proof
    fix s
    have "keeps (bind_js (setWidth H el (fmul H a (devicePixelRatio H s))) (\<lambda>_.
           bind_js (setHeight H el (fmul H b (devicePixelRatio H s))) (\<lambda>_.
           ret JUndefined)))"
      using assms by (simp add: host_ok_def keeps_seq keeps_ret)
    then show "options (snd (bind_js (setWidth H el (fmul H a (devicePixelRatio H s))) (\<lambda>_.
           bind_js (setHeight H el (fmul H b (devicePixelRatio H s))) (\<lambda>_.
           ret JUndefined)) s)) = options s"
      by (rule keeps_snd)
  qed
  moreover have "keeps (getBoundingClientRect H (canvasElement this))"
    using assms by (simp add: host_ok_def)
  ultimately show ?thesis
    by (simp add: fixCanvasSizing_def Let_def keeps_seq split_def)
qed

lemma keeps_fixCanvasViewport:
  assumes "host_ok H"
  shows "keeps (fixCanvasViewport H this)"
  unfolding fixCanvasViewport_def
proof (rule keeps_bind_returns [where Q = "\<lambda>r. \<forall>g. r = Some g \<longrightarrow> glctx_ok g"])
  show "keeps (getContextWebgl H (canvasElement this))"
    using assms by (simp add: host_ok_def)
  show "returns (getContextWebgl H (canvasElement this)) (\<lambda>r. \<forall>g. r = Some g \<longrightarrow> glctx_ok g)"
    using assms by (simp add: host_ok_def)
  fix r :: "'a glctx option"
  assume ok: "\<forall>g. r = Some g \<longrightarrow> glctx_ok g"
  show "keeps (case r of None \<Rightarrow> ret JUndefined
               | Some gl \<Rightarrow>
                   bind_js (getWidth H (canvasElement this)) (\<lambda>w.
                   bind_js (getHeight H (canvasElement this)) (\<lambda>h.
                   bind_js (viewport gl 0 0 w h) (\<lambda>_. ret JUndefined))))"
  proof (cases r)
    case None
    then show ?thesis by (simp add: keeps_ret)
  next
    case (Some gl)
    then have "\<And>x y w h. keeps (viewport gl x y w h)" using ok by (simp add: glctx_ok_def)
    then show ?thesis using Some assms by (simp add: host_ok_def keeps_seq keeps_ret)
  qed
qed

lemma keeps_resizeFixups:
  assumes "host_ok H"
  shows "keeps (resizeFixups H this)"
proof -
  have a: "keeps (bind_js (fixCanvasSizing H this) (\<lambda>_.
                bind_js (fixCanvasViewport H this) (\<lambda>_. ret JUndefined)))"
    by (simp add: keeps_seq keeps_ret keeps_fixCanvasSizing [OF assms]
        keeps_fixCanvasViewport [OF assms])
  have b: "keeps (bind_js (fixCanvasViewport H this) (\<lambda>_. ret JUndefined))"
    by (simp add: keeps_drop keeps_fixCanvasViewport [OF assms])
  show ?thesis
    by (simp add: resizeFixups_def keeps_def keeps_snd [OF a] keeps_snd [OF b])
qed

lemma keeps_keyHandlerWrapper:
  assumes "keeps (f evt)"
  shows "keeps (keyHandlerWrapper f evt)"
  using assms by (simp add: keyHandlerWrapper_def keeps_drop keeps_ret)

lemma keeps_resizeHandlerWrapper:
  assumes "host_ok H" and "keeps (f evt)"
  shows "keeps (resizeHandlerWrapper H this f evt)"
  unfolding resizeHandlerWrapper_def
proof (rule keeps_seq)
  show "keeps (\<lambda>s. if option_set ''resizeCanvasOnElementSizing'' s
                   then (if strict_eq (relatedTarget evt) (canvasElement this)
                         then f evt s
                         else (Ret JUndefined, s))
                   else f evt s)"
    by (simp add: keeps_def keeps_snd [OF assms(2)])
  show "\<And>v. keeps (resizeFixups H this)" by (rule keeps_resizeFixups [OF assms(1)])
qed

lemma keeps_fullscreenchangeHandlerWrapper:
  assumes "host_ok H" and "keeps (f evt)"
  shows "keeps (fullscreenchangeHandlerWrapper H this f evt)"
  unfolding fullscreenchangeHandlerWrapper_def
proof (rule keeps_seq)
  show "keeps (f evt)" by (rule assms(2))
  have a: "keeps (bind_js (fixCanvasSizing H this) (\<lambda>_.
                bind_js (fixCanvasViewport H this) (\<lambda>_. ret JUndefined)))"
    by (simp add: keeps_seq keeps_ret keeps_fixCanvasSizing [OF assms(1)]
        keeps_fixCanvasViewport [OF assms(1)])
  show "\<And>v. keeps (\<lambda>s. let canvasWasFullscreen =
                 (\<not> truthy (fullscreenElement H s)
                  \<and> (strict_eq (evt_target evt) (canvasElement this)
                      \<or> strict_eq (srcElement evt) (canvasElement this)))
           in if canvasWasFullscreen
              then bind_js (fixCanvasSizing H this) (\<lambda>_.
                   bind_js (fixCanvasViewport H this) (\<lambda>_. ret JUndefined)) s
              else (Ret JUndefined, s))"
    by (simp add: keeps_def Let_def keeps_snd [OF a])
qed


lemma patchEventHandler_frame:
  assumes "host_ok H" and "handler_ok eh"
  shows "keeps (patchEventHandler H this eh)"
    and "returns (patchEventHandler H this eh) (\<lambda>p. handler_ok (snd p))"
proof -
  have k: "\<And>evt. keeps (keyHandlerWrapper (handlerFunc eh) evt)"
    using assms(2) by (simp add: handler_ok_def keeps_keyHandlerWrapper)
  have r: "\<And>evt. keeps (resizeHandlerWrapper H this (handlerFunc eh) evt)"
    using assms by (simp add: handler_ok_def keeps_resizeHandlerWrapper)
  have f: "\<And>evt. keeps (fullscreenchangeHandlerWrapper H this (handlerFunc eh) evt)"
    using assms by (simp add: handler_ok_def keeps_fullscreenchangeHandlerWrapper)
  show "keeps (patchEventHandler H this eh)"
    by (simp add: keeps_def patchEventHandler_def patchKeyEventHandler_def
        patchResizeEventHandler_def patchFullscreenchangedEventHandler_def Let_def
        bind_js_def ret_def)
  show "returns (patchEventHandler H this eh) (\<lambda>p. handler_ok (snd p))"
    using assms(2) k r f
    by (auto simp add: returns_def patchEventHandler_def patchKeyEventHandler_def
        patchResizeEventHandler_def patchFullscreenchangedEventHandler_def Let_def
        bind_js_def ret_def handler_ok_def split: if_splits)
qed

lemma keeps_patchedRegisterOrRemoveHandler:
  assumes "host_ok H" and "handler_ok eh" and "\<And>eh'. handler_ok eh' \<Longrightarrow> keeps (reg eh')"
  shows "keeps (patchedRegisterOrRemoveHandler H this reg eh)"
  unfolding patchedRegisterOrRemoveHandler_def
proof (rule keeps_bind_returns [where Q = "\<lambda>p. handler_ok (snd p)"])
  show "keeps (patchEventHandler H this eh)"
    by (rule patchEventHandler_frame(1) [OF assms(1,2)])
  show "returns (patchEventHandler H this eh) (\<lambda>p. handler_ok (snd p))"
    by (rule patchEventHandler_frame(2) [OF assms(1,2)])
  fix p :: "jsval \<times> 'a eventHandler"
  assume "handler_ok (snd p)"
  then show "keeps (case p of (r, eh') \<Rightarrow> bind_js (reg eh') (\<lambda>_. ret JUndefined))"
    using assms(3) by (cases p) (simp add: keeps_drop)
qed

lemma keeps_disposeOne:
  assumes "gl_ok G"
  shows "keeps (disposeOne G key)"
  unfolding keeps_def
proof
  fix s
  show "options (snd (disposeOne G key s)) = options s"
  proof (cases "map_of (contexts G s) key")
    case None
    then show ?thesis by (simp add: disposeOne_def)
  next
    case (Some entry)
    show ?thesis
    proof (cases entry)
      case None
      then show ?thesis using Some by (simp add: disposeOne_def)
    next
      case (Some ctx)
      note ctx = \<open>map_of (contexts G s) key = Some entry\<close> Some
      show ?thesis
      proof (cases "GLctx ctx")
        case None
        then show ?thesis using ctx by (simp add: disposeOne_def)
      next
        case (Some g)
        have "glcontext_ok ctx" using assms ctx by (auto simp: gl_ok_def)
        then have g: "glctx_ok g" using Some by (simp add: glcontext_ok_def)
        have d: "keeps (deleteContext G key)" using assms by (simp add: gl_ok_def)
        have "keeps (bind_js (getExtension g ''WEBGL_lose_context'') (\<lambda>extension.
                    bind_js (case extension of
                               Some x \<Rightarrow> loseContext x
                             | None \<Rightarrow> ret JUndefined) (\<lambda>_.
                    deleteContext G key)))"
        proof (rule keeps_bind_returns [where Q = "\<lambda>r. \<forall>x. r = Some x \<longrightarrow> extension_ok x"])
          show "keeps (getExtension g ''WEBGL_lose_context'')"
            using g by (simp add: glctx_ok_def)
          show "returns (getExtension g ''WEBGL_lose_context'')
                  (\<lambda>r. \<forall>x. r = Some x \<longrightarrow> extension_ok x)"
            using g by (simp add: glctx_ok_def)
          fix r :: "'a extension option"
          assume "\<forall>x. r = Some x \<longrightarrow> extension_ok x"
          then have "keeps (case r of Some x \<Rightarrow> loseContext x | None \<Rightarrow> ret JUndefined)"
            by (cases r) (simp_all add: keeps_ret extension_ok_def)
          then show "keeps (bind_js (case r of Some x \<Rightarrow> loseContext x | None \<Rightarrow> ret JUndefined)
                             (\<lambda>_. deleteContext G key))"
            using d by (simp add: keeps_seq)
        qed
        then show ?thesis using ctx Some by (simp add: disposeOne_def keeps_snd)
      qed
    qed
  qed
qed

lemma keeps_disposeGlContexts:
  assumes "module_ok m"
  shows "keeps (disposeGlContexts m)"
proof (cases "GL m")
  case None
  then show ?thesis by (simp add: disposeGlContexts_def keeps_ret)
next
  case (Some G)
  then have "gl_ok G" using assms by (simp add: module_ok_def)
  then have "\<And>keys. keeps (forEach keys (\<lambda>key. try_catch (disposeOne G key) (\<lambda>e. ret JUndefined)))"
    by (intro keeps_forEach keeps_try_catch keeps_disposeOne keeps_ret)
  then show ?thesis using Some by (simp add: disposeGlContexts_def keeps_def)
qed

lemma keeps_getAbortHandler:
  assumes "initialModule_ok (initialModule this)" and "module_ok m"
  shows "keeps (getAbortHandler this m what)"
  unfolding getAbortHandler_def
proof (rule keeps_seq)
  show "keeps (\<lambda>s. if option_set ''disposeCanvasOnAbort'' s
                   then disposeGlContexts m s
                   else (Ret JUndefined, s))"
    by (simp add: keeps_def keeps_snd [OF keeps_disposeGlContexts [OF assms(2)]])
  show "\<And>v. keeps (case onAbort (initialModule this) of
                     Some userOnAbort \<Rightarrow> bind_js (userOnAbort what) (\<lambda>_. ret JUndefined)
                   | None \<Rightarrow> ret JUndefined)"
    using assms(1)
    by (cases "onAbort (initialModule this)") (simp_all add: initialModule_ok_def keeps_drop keeps_ret)
qed

lemma keeps_patchedViewport:
  assumes "\<And>x y w h. keeps (pv x y w h)"
  shows "keeps (patchedViewport H gl pv x0 y0 w0 h0)"
  by (simp add: keeps_def patchedViewport_def Let_def keeps_snd [OF keeps_drop [OF assms]])

lemma patchedCreateContext_frame:
  assumes "gl_ok G" and "\<And>a. keeps (create a)"
  shows "keeps (patchedCreateContext H G create args)"
    and "returns (patchedCreateContext H G create args) (\<lambda>p. \<forall>g. snd p = Some g \<longrightarrow> glctx_ok g)"
proof -
  have patched: "glctx_ok (g\<lparr>viewport := patchedViewport H g (viewport g)\<rparr>)" if "glctx_ok g" for g
    using that by (simp add: glctx_ok_def keeps_patchedViewport)
  have body: "keeps (case c of
            None \<Rightarrow> throw (JTypeError ''GL.getContext(handle) is undefined'')
          | Some ctx \<Rightarrow>
              (case GLctx ctx of
                 None \<Rightarrow> ret (handle, None)
               | Some gl \<Rightarrow>
                   ret (handle, Some (gl\<lparr>viewport := patchedViewport H gl (viewport gl)\<rparr>))))"
    for c :: "'a glcontext option" and handle :: jsval
    by (simp add: keeps_ret keeps_throw split: option.split)
  have g: "\<And>handle. keeps (getContext G handle)" using assms(1) by (simp add: gl_ok_def)
  show "keeps (patchedCreateContext H G create args)"
    unfolding patchedCreateContext_def
    by (intro keeps_seq assms(2)) (simp add: keeps_ret keeps_seq g body)
  show "returns (patchedCreateContext H G create args) (\<lambda>p. \<forall>g. snd p = Some g \<longrightarrow> glctx_ok g)"
    unfolding returns_def
  proof (intro allI impI)
    fix s v g'
    assume r: "fst (patchedCreateContext H G create args s) = Ret v" and s: "snd v = Some g'"
    from r s obtain handle s0 s1 ctx gl where
      "getContext G handle s0 = (Ret (Some ctx), s1)" and "GLctx ctx = Some gl"
      and "g' = gl\<lparr>viewport := patchedViewport H gl (viewport gl)\<rparr>"
      by (auto simp: patchedCreateContext_def bind_js_def ret_def throw_def
          split: prod.splits res.splits if_splits option.splits)
    moreover have "returns (getContext G handle) (\<lambda>r. \<forall>c. r = Some c \<longrightarrow> glcontext_ok c)"
      using assms(1) by (simp add: gl_ok_def)
    ultimately have "glctx_ok gl"
      by (auto simp: returns_def glcontext_ok_def dest!: spec [of _ s0])
    then show "glctx_ok g'" using patched \<open>g' = _\<close> by simp
  qed
qed


lemma patchGlViewport_frame:
  assumes "module_ok m"
  shows "keeps (patchGlViewport H m)" and "returns (patchGlViewport H m) module_ok"
proof -
  show "keeps (patchGlViewport H m)"
    by (simp add: keeps_def patchGlViewport_def split: option.split)
  have "module_ok (m\<lparr>GL := Some (G\<lparr>createContext :=
                            (\<lambda>args. bind_js (patchedCreateContext H G (createContext G) args)
                                      (\<lambda>(handle, gl). ret handle))\<rparr>)\<rparr>)"
    if G: "GL m = Some G" for G
  proof -
    have ok: "gl_ok G" using assms G by (simp add: module_ok_def)
    then have c: "\<And>a. keeps (createContext G a)" by (simp add: gl_ok_def)
    have "keeps (bind_js (patchedCreateContext H G (createContext G) args)
                   (\<lambda>(handle, gl). ret handle))" for args
      by (intro keeps_seq patchedCreateContext_frame(1) [OF ok c]) (simp add: split_def keeps_ret)
    then have "gl_ok (G\<lparr>createContext :=
                            (\<lambda>args. bind_js (patchedCreateContext H G (createContext G) args)
                                      (\<lambda>(handle, gl). ret handle))\<rparr>)"
      using ok by (simp add: gl_ok_def)
    then show ?thesis using assms by (simp add: module_ok_def)
  qed
  then show "returns (patchGlViewport H m) module_ok"
    using assms by (auto simp: returns_def patchGlViewport_def split: if_splits option.splits)
qed

lemma patchCanvasQueries_frame:
  assumes "module_ok m"
  shows "keeps (patchCanvasQueries H this m)" and "returns (patchCanvasQueries H this m) module_ok"
proof -
  show "keeps (patchCanvasQueries H this m)"
    by (simp add: keeps_def patchCanvasQueries_def split: option.split)
  have "module_ok (m\<lparr>specialHTMLTargets := t\<rparr>)" for t
    using assms by (simp add: module_ok_def)
  then show "returns (patchCanvasQueries H this m) module_ok"
    using assms
    by (auto simp: returns_def patchCanvasQueries_def split: if_splits option.splits)
qed

lemma keeps_attachFocusInvokers:
  assumes "host_ok H"
  shows "keeps (attachFocusInvokers H this)"
proof -
  let ?handler = "bind_js (invoke H (componentElement this) ''focus'' []) (\<lambda>_. ret JUndefined)"
  have h: "keeps ?handler" using assms by (simp add: host_ok_def keeps_drop)
  have a: "\<And>el ty capture. keeps (addEventListener H el ty ?handler capture)"
    using assms h by (simp add: host_ok_def)
  have "keeps (bind_js (addEventListener H (canvasElement this) ''mousedown'' ?handler True) (\<lambda>_.
               bind_js (addEventListener H (canvasElement this) ''touchstart'' ?handler True) (\<lambda>_.
               ret JUndefined)))"
    by (intro keeps_seq a keeps_ret)
  then show ?thesis
    by (simp add: keeps_def attachFocusInvokers_def Let_def)
qed

lemma patchEventHandlers_frame:
  assumes "host_ok H" and "module_ok m"
  shows "keeps (patchEventHandlers H this m)" and "returns (patchEventHandlers H this m) module_ok"
proof -
  show "keeps (patchEventHandlers H this m)"
    by (simp add: patchEventHandlers_def keeps_ret keeps_throw split: option.split)
  have "module_ok (m\<lparr>JSEvents := Some (je\<lparr>registerOrRemoveHandler :=
                 patchedRegisterOrRemoveHandler H this (registerOrRemoveHandler je)\<rparr>)\<rparr>)"
    if je: "JSEvents m = Some je" for je
  proof -
    have "jsEvents_ok je" using assms(2) je by (simp add: module_ok_def)
    then have "\<And>eh. handler_ok eh \<Longrightarrow> keeps (registerOrRemoveHandler je eh)"
      by (simp add: jsEvents_ok_def)
    then have "jsEvents_ok (je\<lparr>registerOrRemoveHandler :=
                 patchedRegisterOrRemoveHandler H this (registerOrRemoveHandler je)\<rparr>)"
      using assms(1) by (simp add: jsEvents_ok_def keeps_patchedRegisterOrRemoveHandler)
    then show ?thesis using assms(2) by (simp add: module_ok_def)
  qed
  then show "returns (patchEventHandlers H this m) module_ok"
    by (auto simp: returns_def patchEventHandlers_def ret_def throw_def split: option.splits)
qed

lemma patchModule_frame:
  assumes "host_ok H" and "module_ok m"
  shows "keeps (patchModule H this m)" and "returns (patchModule H this m) module_ok"
proof -
  have inner: "keeps (bind_js (attachFocusInvokers H this) (\<lambda>_.
                 bind_js (patchGlViewport H m1) (\<lambda>m2. patchEventHandlers H this m2)))"
    if "module_ok m1" for m1
    by (intro keeps_seq keeps_attachFocusInvokers [OF assms(1)]
        keeps_bind_returns [OF patchGlViewport_frame [OF that]]
        patchEventHandlers_frame(1) [OF assms(1)])
  show "keeps (patchModule H this m)"
    unfolding patchModule_def
    by (intro keeps_bind_returns [OF patchCanvasQueries_frame [OF assms(2)]] inner)
  show "returns (patchModule H this m) module_ok"
    unfolding returns_def
  proof (intro allI impI)
    fix s v
    assume r: "fst (patchModule H this m s) = Ret v"
    then obtain m1 s1 m2 s2 s3 where
      "patchCanvasQueries H this m s = (Ret m1, s1)"
      and "patchGlViewport H m1 s2 = (Ret m2, s3)"
      and "fst (patchEventHandlers H this m2 s3) = Ret v"
      by (auto simp: patchModule_def bind_js_def split: prod.splits res.splits)
    then have "module_ok m1" using patchCanvasQueries_frame(2) [OF assms(2), of H this]
      by (auto simp: returns_def dest!: spec [of _ s])
    then have "module_ok m2" using patchGlViewport_frame(2) [of m1 H] \<open>patchGlViewport H m1 s2 = _\<close>
      by (auto simp: returns_def dest!: spec [of _ s2])
    then show "module_ok v"
      using patchEventHandlers_frame(2) [OF assms(1), of m2 this]
        \<open>fst (patchEventHandlers H this m2 s3) = Ret v\<close>
      by (auto simp: returns_def)
  qed
qed

lemma keeps_getLocateFile:
  assumes "host_ok H"
  shows "keeps (getLocateFile H this path dir)"
proof -
  have "keeps (isAbsoluteUrl H url)" for url
    using assms by (simp add: isAbsoluteUrl_def host_ok_def keeps_try_catch keeps_seq keeps_ret)
  then show ?thesis
    by (simp add: getLocateFile_def keeps_ret keeps_seq)
qed

lemma keeps_getPrintErrHandler:
  assumes "host_ok H" and "initialModule_ok (initialModule this)"
  shows "keeps (getPrintErrHandler H this args)"
proof -
  have "keeps (case printErr (initialModule this) of
        Some predefinedPrintErr \<Rightarrow> bind_js (predefinedPrintErr msg) (\<lambda>_. ret JUndefined)
      | None \<Rightarrow> ret JUndefined)" for msg
    using assms(2)
    by (cases "printErr (initialModule this)") (simp_all add: initialModule_ok_def keeps_drop keeps_ret)
  then show ?thesis
    using assms(1) by (simp add: getPrintErrHandler_def Let_def host_ok_def keeps_seq)
qed

lemma getPrintHandler_frame:
  assumes "host_ok H" and "initialModule_ok (initialModule this)"
  shows "keeps (getPrintHandler H this)"
    and "returns (getPrintHandler H this) (\<lambda>handler. \<forall>args. keeps (handler args))"
proof -
  let ?el = "consoleElement this"
  have clear: "keeps (if truthy ?el then setProperty H ?el ''value'' (JStr [])
                      else ret JUndefined)"
    using assms(1) by (simp add: host_ok_def keeps_ret)
  have user: "keeps (case print (initialModule this) of
         Some predefinedPrint \<Rightarrow> bind_js (predefinedPrint msg) (\<lambda>_. ret JUndefined)
       | None \<Rightarrow> ret JUndefined)" for msg
    using assms(2)
    by (cases "print (initialModule this)") (simp_all add: initialModule_ok_def keeps_drop keeps_ret)
  have append: "keeps (if truthy ?el
                then bind_js (getProperty H ?el ''value'') (\<lambda>old.
                     bind_js (setProperty H ?el ''value''
                                (js_plus H old (js_plus H msg (JStr [CHR 0x0A])))) (\<lambda>_.
                     bind_js (getProperty H ?el ''scrollHeight'') (\<lambda>h.
                     setProperty H ?el ''scrollTop'' h)))
                else ret JUndefined)" for msg
    using assms(1) by (simp add: host_ok_def keeps_seq keeps_ret)
  have handler: "keeps (bind_js (consoleLog H msg) (\<lambda>_.
       bind_js (if truthy ?el
                then bind_js (getProperty H ?el ''value'') (\<lambda>old.
                     bind_js (setProperty H ?el ''value''
                                (js_plus H old (js_plus H msg (JStr [CHR 0x0A])))) (\<lambda>_.
                     bind_js (getProperty H ?el ''scrollHeight'') (\<lambda>h.
                     setProperty H ?el ''scrollTop'' h)))
                else ret JUndefined) (\<lambda>_.
       case print (initialModule this) of
         Some predefinedPrint \<Rightarrow> bind_js (predefinedPrint msg) (\<lambda>_. ret JUndefined)
       | None \<Rightarrow> ret JUndefined)))" for msg
    using assms(1) by (intro keeps_seq append user) (simp add: host_ok_def)
  show "keeps (getPrintHandler H this)"
    unfolding getPrintHandler_def by (intro keeps_seq clear keeps_ret)
  show "returns (getPrintHandler H this) (\<lambda>handler. \<forall>args. keeps (handler args))"
    using handler
    by (auto simp: returns_def getPrintHandler_def Let_def bind_js_def ret_def
        split: prod.splits res.splits)
qed

lemma moduleConfig_ok:
  assumes "host_ok H" and "initialModule_ok (initialModule this)"
    and "\<And>args. keeps (printHandler args)"
  shows "config_ok (moduleConfig H this s printHandler)"
  using assms
  by (simp add: config_ok_def moduleConfig_def keeps_getLocateFile keeps_getAbortHandler
      keeps_getPrintErrHandler)

lemma initializeModule_frame:
  assumes "host_ok H" and "manager_ok this"
  shows "keeps (initializeModule H this)"
    and "returns (initializeModule H this) (\<lambda>p. \<forall>this'. p = Resolved this' \<longrightarrow> manager_ok this')"
proof -
  have im: "initialModule_ok (initialModule this)" and fo: "factory_ok (moduleFactory this)"
    using assms(2) by (simp_all add: manager_ok_def)
  have rest: "keeps (bind_js (moduleFactory this (moduleConfig H this s printHandler)) (\<lambda>instance.
             bind_js (patchModule H this instance) (\<lambda>patched.
             ret (this\<lparr>moduleInstance := Some patched\<rparr>))))"
    if "\<And>args. keeps (printHandler args)" for s printHandler
  proof -
    have c: "config_ok (moduleConfig H this s printHandler)"
      by (rule moduleConfig_ok [OF assms(1) im that])
    show ?thesis
    proof (rule keeps_bind_returns [where Q = module_ok])
      show "keeps (moduleFactory this (moduleConfig H this s printHandler))"
        using fo c by (simp add: factory_ok_def)
      show "returns (moduleFactory this (moduleConfig H this s printHandler)) module_ok"
        using fo c by (simp add: factory_ok_def)
      fix inst :: "'a module"
      assume "module_ok inst"
      then show "keeps (bind_js (patchModule H this inst) (\<lambda>patched.
             ret (this\<lparr>moduleInstance := Some patched\<rparr>)))"
        by (intro keeps_seq patchModule_frame(1) [OF assms(1)] keeps_ret)
    qed
  qed
  have body: "keeps (\<lambda>s. bind_js (getPrintHandler H this) (\<lambda>printHandler.
             bind_js (moduleFactory this (moduleConfig H this s printHandler)) (\<lambda>instance.
             bind_js (patchModule H this instance) (\<lambda>patched.
             ret (this\<lparr>moduleInstance := Some patched\<rparr>)))) s)"
    unfolding keeps_def
  proof
    fix s
    have "keeps (bind_js (getPrintHandler H this) (\<lambda>printHandler.
             bind_js (moduleFactory this (moduleConfig H this s printHandler)) (\<lambda>instance.
             bind_js (patchModule H this instance) (\<lambda>patched.
             ret (this\<lparr>moduleInstance := Some patched\<rparr>)))))"
      by (rule keeps_bind_returns [OF getPrintHandler_frame [OF assms(1) im]]) (simp add: rest)
    then show "options (snd (bind_js (getPrintHandler H this) (\<lambda>printHandler.
             bind_js (moduleFactory this (moduleConfig H this s printHandler)) (\<lambda>instance.
             bind_js (patchModule H this instance) (\<lambda>patched.
             ret (this\<lparr>moduleInstance := Some patched\<rparr>)))) s)) = options s"
      by (rule keeps_snd)
  qed
  show "keeps (initializeModule H this)"
    unfolding initializeModule_def by (rule keeps_async [OF body])
  show "returns (initializeModule H this) (\<lambda>p. \<forall>this'. p = Resolved this' \<longrightarrow> manager_ok this')"
    unfolding returns_def
  proof (intro allI impI)
    fix s p this'
    assume r: "fst (initializeModule H this s) = Ret p" and p: "p = Resolved this'"
    then obtain ph s1 inst s2 patched s3 where
      g: "getPrintHandler H this s = (Ret ph, s1)"
      and f: "moduleFactory this (moduleConfig H this s ph) s1 = (Ret inst, s2)"
      and m: "patchModule H this inst s2 = (Ret patched, s3)"
      and t: "this' = this\<lparr>moduleInstance := Some patched\<rparr>"
      by (auto simp: initializeModule_eq split: prod.splits res.splits)
    have "\<And>args. keeps (ph args)"
      using getPrintHandler_frame(2) [OF assms(1) im] g
      by (auto simp: returns_def dest!: spec [of _ s])
    then have "config_ok (moduleConfig H this s ph)"
      by (rule moduleConfig_ok [OF assms(1) im])
    then have "module_ok inst"
      using fo f by (auto simp: factory_ok_def returns_def dest!: spec [of _ s1])
    then have "module_ok patched"
      using patchModule_frame(2) [OF assms(1), of inst this] m
      by (auto simp: returns_def dest!: spec [of _ s2])
    then show "manager_ok this'"
      using t im fo by (simp add: manager_ok_def)
  qed
qed


lemma constructor_manager_ok:
  assumes "factory_ok factory" and "initialModule_ok (initialModuleObj userOpts)"
  shows "\<exists>manager. ModuleManager_constructor factory component canvas console userOpts s =
                (Ret manager, setOptions (props userOpts) s) \<and> manager_ok manager"
  using assms
  by (simp add: ModuleManager_constructor_def Manager_constructor_def bind_js_def ret_def
      manager.defs moduleManager.defs manager_ok_def initialModule_ok_def emptyInitialModule_def)

lemma initialize_keeps_constructed:
  assumes "host_ok H" and "factory_ok factory" and "initialModule_ok (initialModuleObj userOpts)"
  shows "options (snd (ModuleManager_initialize H factory component canvas console userOpts s)) =
         options (snd (ModuleManager_constructor factory component canvas console userOpts s))"
proof -
  obtain manager where c:
    "ModuleManager_constructor factory component canvas console userOpts s =
       (Ret manager, setOptions (props userOpts) s)"
    and ok: "manager_ok manager"
    using constructor_manager_ok [OF assms(2,3)] by blast
  have "keeps (initializeModule H manager)"
    by (rule initializeModule_frame(1) [OF assms(1) ok])
  then show ?thesis
    by (simp add: initialize_eq [OF c] c keeps_snd)
qed

text \<open>
  Claim C9. After construction no operation of the adapter writes to the options record.
  Run against a browser, a wrapped module and caller's callbacks that do not write to it
  themselves, each public operation (\<open>callMain\<close>, \<open>abort\<close>, \<open>pauseMainLoop\<close>,
  \<open>resumeMainLoop\<close>, \<open>requestFullscreen\<close>, \<open>exitFullscreen\<close>, \<open>onResizeCanvas\<close>),
  \<open>_initializeModule\<close> (which moreover hands back a manager in the same condition, so the
  property carries over to every later operation), \<open>initialize\<close> after its constructor,
  and every function the adapter installs (the three event handler wrappers, the abort
  handler, the patched registration, \<open>createContext\<close> and \<open>viewport\<close>, the print handlers and
  \<open>locateFile\<close>) leaves the record as it found it.
\<close>

theorem C9_options_immutable:
  assumes "host_ok H" and "manager_ok this"
  shows
   "keeps (ModuleManager_callMain this args) \<and>
    keeps (ModuleManager_abort this args) \<and>
    keeps (ModuleManager_pauseMainLoop this args) \<and>
    keeps (ModuleManager_resumeMainLoop this args) \<and>
    keeps (ModuleManager_requestFullscreen H this args) \<and>
    keeps (ModuleManager_exitFullscreen H this args) \<and>
    keeps (ModuleManager_onResizeCanvas H this args) \<and>
    keeps (initializeModule H this) \<and>
    returns (initializeModule H this) (\<lambda>p. \<forall>this'. p = Resolved this' \<longrightarrow> manager_ok this') \<and>
    (\<forall>factory component canvas console userOpts s.
       factory_ok factory \<and> initialModule_ok (initialModuleObj userOpts) \<longrightarrow>
       options (snd (ModuleManager_initialize H factory component canvas console userOpts s)) =
       options (snd (ModuleManager_constructor factory component canvas console userOpts s))) \<and>
    (\<forall>f evt. keeps (f evt) \<longrightarrow>
       keeps (keyHandlerWrapper f evt) \<and>
       keeps (resizeHandlerWrapper H this f evt) \<and>
       keeps (fullscreenchangeHandlerWrapper H this f evt)) \<and>
    (\<forall>m what. module_ok m \<longrightarrow> keeps (getAbortHandler this m what)) \<and>
    (\<forall>reg eh. handler_ok eh \<and> (\<forall>eh'. handler_ok eh' \<longrightarrow> keeps (reg eh')) \<longrightarrow>
       keeps (patchedRegisterOrRemoveHandler H this reg eh)) \<and>
    (\<forall>gl pv x0 y0 w0 h0. (\<forall>x y w h. keeps (pv x y w h)) \<longrightarrow>
       keeps (patchedViewport H gl pv x0 y0 w0 h0)) \<and>
    (\<forall>G create a. gl_ok G \<and> (\<forall>b. keeps (create b)) \<longrightarrow>
       keeps (patchedCreateContext H G create a)) \<and>
    returns (getPrintHandler H this) (\<lambda>handler. \<forall>a. keeps (handler a)) \<and>
    (\<forall>a. keeps (getPrintErrHandler H this a)) \<and>
    (\<forall>path dir. keeps (getLocateFile H this path dir))"
proof -
  have im: "initialModule_ok (initialModule this)"
    using assms(2) by (simp add: manager_ok_def)
  note ops = keeps_callMain [OF assms(2)] keeps_abort [OF assms(2)]
    keeps_pauseMainLoop [OF assms(2)] keeps_resumeMainLoop [OF assms(2)]
    keeps_requestFullscreen [OF assms(1)] keeps_exitFullscreen [OF assms(1)]
    keeps_onResizeCanvas [OF assms(1)] initializeModule_frame [OF assms]
  have init: "\<forall>factory component canvas console userOpts s.
       factory_ok factory \<and> initialModule_ok (initialModuleObj userOpts) \<longrightarrow>
       options (snd (ModuleManager_initialize H factory component canvas console userOpts s)) =
       options (snd (ModuleManager_constructor factory component canvas console userOpts s))"
    using initialize_keeps_constructed [OF assms(1)] by blast
  have wrappers: "\<forall>f evt. keeps (f evt) \<longrightarrow>
       keeps (keyHandlerWrapper f evt) \<and>
       keeps (resizeHandlerWrapper H this f evt) \<and>
       keeps (fullscreenchangeHandlerWrapper H this f evt)"
    by (simp add: keeps_keyHandlerWrapper keeps_resizeHandlerWrapper [OF assms(1)]
        keeps_fullscreenchangeHandlerWrapper [OF assms(1)])
  have ab: "\<forall>m what. module_ok m \<longrightarrow> keeps (getAbortHandler this m what)"
    by (simp add: keeps_getAbortHandler [OF im])
  have reg: "\<forall>reg eh. handler_ok eh \<and> (\<forall>eh'. handler_ok eh' \<longrightarrow> keeps (reg eh')) \<longrightarrow>
       keeps (patchedRegisterOrRemoveHandler H this reg eh)"
    by (simp add: keeps_patchedRegisterOrRemoveHandler [OF assms(1)])
  have vp: "\<forall>gl pv x0 y0 w0 h0. (\<forall>x y w h. keeps (pv x y w h)) \<longrightarrow>
       keeps (patchedViewport H gl pv x0 y0 w0 h0)"
    by (simp add: keeps_patchedViewport)
  have cc: "\<forall>G create a. gl_ok G \<and> (\<forall>b. keeps (create b)) \<longrightarrow>
       keeps (patchedCreateContext H G create a)"
    by (simp add: patchedCreateContext_frame(1))
  have pr: "returns (getPrintHandler H this) (\<lambda>handler. \<forall>a. keeps (handler a))"
    "\<forall>a. keeps (getPrintErrHandler H this a)"
    "\<forall>path dir. keeps (getLocateFile H this path dir)"
    by (simp_all add: getPrintHandler_frame(2) [OF assms(1) im]
        keeps_getPrintErrHandler [OF assms(1) im] keeps_getLocateFile [OF assms(1)])
  from ops init wrappers ab reg vp cc pr show ?thesis by blast
qed

text \<open>The recording world does not write to the options record.\<close>

lemma keeps_logged: "keeps (logged c v)"
  by (simp add: keeps_def logged_def)

lemma keeps_failing: "keeps (failing c e)"
  by (simp add: keeps_def failing_def)

lemma traceGlctx_ok: "glctx_ok traceGlctx" "glctx_ok lostGlctx"
  by (simp_all add: glctx_ok_def traceGlctx_def lostGlctx_def keeps_def
      returns_def logged_def failing_def extension_ok_def traceExtension_def)

lemma traceModule_ok: "module_ok traceModule"
proof -
  have "gl_ok traceGL"
    using traceGlctx_ok
    by (auto simp: gl_ok_def traceGL_def keeps_def logged_def returns_def ret_def
        glcontext_ok_def split: if_splits)
  then show ?thesis
    by (simp add: module_ok_def traceModule_def keeps_def logged_def failing_def jsEvents_ok_def)
qed

lemma traceHost_ok: "host_ok traceHost"
  using traceGlctx_ok
  by (simp add: host_ok_def traceHost_def keeps_def logged_def returns_def ret_def throw_def)

lemma traceManager_ok: "manager_ok traceManager"
  using traceModule_ok
  by (simp add: manager_ok_def traceManager_def initialModule_ok_def emptyInitialModule_def
      factory_ok_def keeps_def returns_def logged_def)

text \<open>On the recording world, started from the default options.\<close>

theorem C9_options_immutable_witness:
  "host_ok traceHost \<and> manager_ok traceManager \<and>
   options (snd (ModuleManager_callMain traceManager [JStr ''a''] traceStore)) = defaultOptions \<and>
   options (snd (ModuleManager_abort traceManager [] traceStore)) = defaultOptions \<and>
   options (snd (ModuleManager_onResizeCanvas traceHost traceManager [JObj 7] traceStore)) =
     defaultOptions \<and>
   options (snd (initializeModule traceHost traceManager traceStore)) = defaultOptions \<and>
   keeps (traceHandlerFunc windowResizeEvent) \<and>
   options (snd (resizeHandlerWrapper traceHost traceManager traceHandlerFunc windowResizeEvent
                   traceStore)) = defaultOptions \<and>
   module_ok traceModule \<and>
   options (snd (getAbortHandler traceManager traceModule (JStr ''stop'') traceStore)) =
     defaultOptions"
proof -
  note t = C9_options_immutable [OF traceHost_ok traceManager_ok]
  have o: "options traceStore = defaultOptions" by (simp add: traceStore_def)
  have h: "keeps (traceHandlerFunc windowResizeEvent)"
    by (simp add: traceHandlerFunc_def keeps_logged)
  have 1: "options (snd (ModuleManager_callMain traceManager [JStr ''a''] traceStore)) =
             defaultOptions"
    using t [of "[JStr ''a'']"] o by (simp add: keeps_def)
  have 2: "options (snd (ModuleManager_abort traceManager [] traceStore)) = defaultOptions"
    using t [of "[]"] o by (simp add: keeps_def)
  have 3: "options (snd (ModuleManager_onResizeCanvas traceHost traceManager [JObj 7] traceStore)) =
             defaultOptions"
    using t [of "[JObj 7]"] o by (simp add: keeps_def)
  have 4: "options (snd (initializeModule traceHost traceManager traceStore)) = defaultOptions"
    using t [of "[]"] o by (simp add: keeps_def)
  have "keeps (resizeHandlerWrapper traceHost traceManager traceHandlerFunc windowResizeEvent)"
    using t [of "[]"] h by blast
  then have 5: "options (snd (resizeHandlerWrapper traceHost traceManager traceHandlerFunc
                   windowResizeEvent traceStore)) = defaultOptions"
    using o by (simp add: keeps_def)
  have "keeps (getAbortHandler traceManager traceModule (JStr ''stop''))"
    using t [of "[]"] traceModule_ok by blast
  then have 6: "options (snd (getAbortHandler traceManager traceModule (JStr ''stop'') traceStore)) =
             defaultOptions"
    using o by (simp add: keeps_def)
  from traceHost_ok traceManager_ok traceModule_ok h 1 2 3 4 5 6 show ?thesis by blast
qed

end
